theory Spec2Isabelle
  imports Complex_Main "HOL-Library.Word" "HOL-Library.Log_Nat"
begin

section \<open>rgltf: loading and drawing glTF 2.0 models\<close>

text \<open>
  A shallow embedding of \<^verbatim>\<open>rgltf.c\<close> (the glTF loader and the scene renderer built
  on raylib and cgltf) and of the structures of \<^verbatim>\<open>rgltf.h\<close>. C \<^verbatim>\<open>int\<close> values are
  modelled as \<open>int\<close>: every count comes from a file of fewer than \<open>2^32\<close> bytes in which an
  array element takes at least three bytes, so no count reaches \<open>2^31\<close>. Arrays are lists; a
  \<^verbatim>\<open>NULL\<close> array is the empty list. A read outside an array is undefined behaviour in C and
  is an error value here.
\<close>

subsection \<open>Errors\<close>

datatype error =
  OutOfBounds            \<comment> \<open>an array element outside its allocation is read or written\<close>
| UndefinedConversion    \<comment> \<open>a floating value whose integral part does not fit the integer type is cast\<close>
| StackExhausted         \<comment> \<open>the recursion is deeper than the fuel given\<close>

definition array_get :: "'a list \<Rightarrow> int \<Rightarrow> error + 'a" where
  "array_get xs i = (if 0 \<le> i \<and> i < int (length xs) then Inr (xs ! nat i) else Inl OutOfBounds)"

text \<open>A \<^verbatim>\<open>for\<close> loop over the values \<open>xs\<close> of its counter, stopping at the first error.\<close>

fun iterate :: "('a \<Rightarrow> 's \<Rightarrow> error + 's) \<Rightarrow> 'a list \<Rightarrow> 's \<Rightarrow> error + 's" where
  "iterate body [] s = Inr s"
| "iterate body (x # xs) s =
     (case body x s of Inl e \<Rightarrow> Inl e | Inr s' \<Rightarrow> iterate body xs s')"

lemma iterate_cong [fundef_cong]:
  "xs = ys \<Longrightarrow> s = t \<Longrightarrow> (\<And>x u. x \<in> set ys \<Longrightarrow> f x u = g x u)
   \<Longrightarrow> iterate f xs s = iterate g ys t"
proof (induction ys arbitrary: xs s t)
  case Nil
  then show ?case by simp
next
  case (Cons y ys)
  then show ?case by (auto split: sum.splits)
qed

subsection \<open>Floating point\<close>

text \<open>
  A C \<^verbatim>\<open>float\<close> or \<^verbatim>\<open>double\<close> is modelled by the rational number it denotes (finite values
  only). An arithmetic operation is the exact operation followed by rounding to the nearest
  representable value, ties to even (IEEE 754, the default rounding mode), each operation in
  the precision of its C type (\<^verbatim>\<open>FLT_EVAL_METHOD\<close> 0). \<open>fl_round p emin\<close> rounds to \<open>p\<close>
  significant bits with least exponent \<open>emin\<close>; overflow to infinity is not modelled, the
  rounded value is returned as it is.
\<close>

type_synonym float = rat

definition pow2 :: "int \<Rightarrow> rat" where
  "pow2 e = (if 0 \<le> e then 2 ^ nat e else 1 / 2 ^ nat (- e))"

definition ilog2 :: "rat \<Rightarrow> int" where
  \<comment> \<open>\<open>\<lfloor>log\<^sub>2 \<bar>x\<bar>\<rfloor>\<close> for \<open>x \<noteq> 0\<close>\<close>
  "ilog2 x = (let n = fst (quotient_of \<bar>x\<bar>); d = snd (quotient_of \<bar>x\<bar>);
                  e0 = bitlen n - bitlen d
              in if pow2 e0 \<le> \<bar>x\<bar> then e0 else e0 - 1)"

definition round_half_even :: "rat \<Rightarrow> int" where
  "round_half_even x = (let f = \<lfloor>x\<rfloor>; r = x - of_int f
     in if r < 1 / 2 then f else if 1 / 2 < r then f + 1 else if even f then f else f + 1)"

definition fl_round :: "nat \<Rightarrow> int \<Rightarrow> rat \<Rightarrow> rat" where
  "fl_round p emin x = (if x = 0 then 0 else
     let q = max (ilog2 x - (int p - 1)) emin
     in of_int (round_half_even (x / pow2 q)) * pow2 q)"

definition fl64 :: "rat \<Rightarrow> rat" where
  "fl64 = fl_round 53 (- 1074)"

definition fl32 :: "rat \<Rightarrow> rat" where
  "fl32 = fl_round 24 (- 149)"

text \<open>
  The cast \<^verbatim>\<open>(unsigned char)x\<close> of a floating value discards the fractional part; it is
  undefined when the integral part is not in \<open>0..255\<close> (C11 6.3.1.4).
\<close>

definition truncate_rat :: "rat \<Rightarrow> int" where
  "truncate_rat x = (if 0 \<le> x then \<lfloor>x\<rfloor> else \<lceil>x\<rceil>)"

definition uchar_of_float :: "rat \<Rightarrow> error + 8 word" where
  "uchar_of_float x = (let i = truncate_rat x in
     if 0 \<le> i \<and> i \<le> 255 then Inr (word_of_int i) else Inl UndefinedConversion)"

subsection \<open>raylib structures\<close>

record Color =
  color_r :: "8 word"
  color_g :: "8 word"
  color_b :: "8 word"
  color_a :: "8 word"

definition WHITE :: Color where
  "WHITE = \<lparr> color_r = 255, color_g = 255, color_b = 255, color_a = 255 \<rparr>"

record Vector3 =
  v3_x :: float
  v3_y :: float
  v3_z :: float

record Quaternion =
  q_x :: float
  q_y :: float
  q_z :: float
  q_w :: float

record Transform =
  translation :: Vector3
  rotation :: Quaternion
  scale :: Vector3

text \<open>
  A \<^verbatim>\<open>Mesh\<close>: the CPU-side arrays of one primitive. Float arrays hold the 32-bit patterns
  as they are copied from the buffer; \<open>None\<close> is a \<^verbatim>\<open>NULL\<close> array. GPU handles are left out.
\<close>

record Mesh =
  vertexCount :: int
  triangleCount :: int
  vertices :: "32 word list option"
  texcoords :: "32 word list option"
  normals :: "32 word list option"
  tangents :: "32 word list option"
  colors :: "8 word list option"
  indices :: "16 word list option"

definition zero_Mesh :: Mesh where
  \<comment> \<open>a \<^verbatim>\<open>Mesh\<close> as \<^verbatim>\<open>RL_CALLOC\<close> leaves it\<close>
  "zero_Mesh = \<lparr> vertexCount = 0, triangleCount = 0, vertices = None, texcoords = None,
      normals = None, tangents = None, colors = None, indices = None \<rparr>"

record MaterialMap =
  texture :: nat         \<comment> \<open>texture id\<close>
  color :: Color
  "value" :: float

text \<open>
  A \<^verbatim>\<open>Material\<close> is its array of maps, indexed by the map constants of raylib.h, where
  \<^verbatim>\<open>MATERIAL_MAP_DIFFUSE\<close> is another name of \<^verbatim>\<open>MATERIAL_MAP_ALBEDO\<close>.
\<close>

record Material =
  maps :: "nat \<Rightarrow> MaterialMap"

definition MATERIAL_MAP_ALBEDO :: nat where "MATERIAL_MAP_ALBEDO = 0"

definition MATERIAL_MAP_METALNESS :: nat where "MATERIAL_MAP_METALNESS = 1"

definition MATERIAL_MAP_NORMAL :: nat where "MATERIAL_MAP_NORMAL = 2"

definition MATERIAL_MAP_ROUGHNESS :: nat where "MATERIAL_MAP_ROUGHNESS = 3"

definition MATERIAL_MAP_OCCLUSION :: nat where "MATERIAL_MAP_OCCLUSION = 4"

definition MATERIAL_MAP_EMISSION :: nat where "MATERIAL_MAP_EMISSION = 5"

definition MATERIAL_MAP_DIFFUSE :: nat where "MATERIAL_MAP_DIFFUSE = MATERIAL_MAP_ALBEDO"

text \<open>
  The functions of raymath.h and raylib that the code calls are parameters of the model:
  \<open>'m\<close> is the type of a \<^verbatim>\<open>Matrix\<close>.
\<close>

record 'm raylib =
  zero_Matrix :: 'm                \<comment> \<open>a \<^verbatim>\<open>Matrix\<close> all of whose entries are 0\<close>
  MatrixIdentity :: 'm
  MatrixMultiply :: "'m \<Rightarrow> 'm \<Rightarrow> 'm"
  MatrixTranslate :: "float \<Rightarrow> float \<Rightarrow> float \<Rightarrow> 'm"
  MatrixScale :: "float \<Rightarrow> float \<Rightarrow> float \<Rightarrow> 'm"
  MatrixRotate :: "Vector3 \<Rightarrow> float \<Rightarrow> 'm"
  QuaternionToMatrix :: "Quaternion \<Rightarrow> 'm"
  DEG2RAD :: float
  LoadMaterialDefault :: Material
  GenMeshCube :: "float \<Rightarrow> float \<Rightarrow> float \<Rightarrow> Mesh"
  SUPPORT_MESH_GENERATION :: bool

subsection \<open>rgltf structures\<close>

record 'm GLTFNode =
  childrenCount :: int
  children :: "int list"
  meshStart :: int
  meshEnd :: int
  transform :: Transform
  transformMatrix :: 'm

record GLTFScene =
  scene_nodeCount :: int
  scene_nodes :: "int list"

record 'm GLTFModel =
  model_transform :: 'm
  meshCount :: int
  materialCount :: int
  meshes :: "Mesh list"
  materials :: "Material list"
  meshMaterial :: "int list"
  nodeCount :: int
  nodes :: "'m GLTFNode list"
  sceneCount :: int
  scenes :: "GLTFScene list"
  scene :: int

subsection \<open>Drawing\<close>

text \<open>
  A \<^verbatim>\<open>GLTFModel\<close> is passed by value, but \<^verbatim>\<open>model.materials\<close> points to an array shared
  with the caller: the draw functions write to it. The state of a draw is that array and the
  list of the \<^verbatim>\<open>DrawMesh\<close> calls issued so far, each with the mesh, the material and the
  transform it received. The draw functions read the materials from the state, never from
  the field \<open>materials\<close> of the model.
\<close>

record 'm draw_state =
  heap_materials :: "Material list"
  calls :: "(Mesh \<times> Material \<times> 'm) list"

definition tint_channel :: "8 word \<Rightarrow> 8 word \<Rightarrow> error + 8 word" where
  \<comment> \<open>\<^verbatim>\<open>(unsigned char)((((float)c/255.0)*((float)t/255.0))*255.0f)\<close>, in \<^verbatim>\<open>double\<close>\<close>
  "tint_channel c t =
     uchar_of_float (fl64 (fl64 (fl64 (of_nat (unat c) / 255) * fl64 (of_nat (unat t) / 255)) * 255))"

definition ColorTint :: "Color \<Rightarrow> Color \<Rightarrow> error + Color" where
  "ColorTint c tint =
     (case tint_channel (color_r c) (color_r tint) of Inl e \<Rightarrow> Inl e | Inr cr \<Rightarrow>
      case tint_channel (color_g c) (color_g tint) of Inl e \<Rightarrow> Inl e | Inr cg \<Rightarrow>
      case tint_channel (color_b c) (color_b tint) of Inl e \<Rightarrow> Inl e | Inr cb \<Rightarrow>
      case tint_channel (color_a c) (color_a tint) of Inl e \<Rightarrow> Inl e | Inr ca \<Rightarrow>
        Inr (WHITE\<lparr> color_r := cr, color_g := cg, color_b := cb, color_a := ca \<rparr>))"

definition set_diffuse_color :: "Material \<Rightarrow> Color \<Rightarrow> Material" where
  \<comment> \<open>\<^verbatim>\<open>material.maps[MATERIAL_MAP_DIFFUSE].color = c\<close>\<close>
  "set_diffuse_color mat c =
     mat\<lparr> maps := (maps mat)(MATERIAL_MAP_DIFFUSE := (maps mat MATERIAL_MAP_DIFFUSE)\<lparr> color := c \<rparr>) \<rparr>"

text \<open>
  The body of the mesh loop, the same text in \<^verbatim>\<open>DrawGLTFModelEx\<close> and in
  \<^verbatim>\<open>DrawGLTFNode\<close>: save the colour of the mesh's material, store the tinted colour, call
  \<^verbatim>\<open>DrawMesh\<close>, store the saved colour.
\<close>

definition draw_tinted_mesh ::
  "'m GLTFModel \<Rightarrow> int \<Rightarrow> 'm \<Rightarrow> Color \<Rightarrow> 'm draw_state \<Rightarrow> error + 'm draw_state" where
  "draw_tinted_mesh model j matTransform tint st =
     (case array_get (meshMaterial model) j of Inl e \<Rightarrow> Inl e | Inr mm \<Rightarrow>
      case array_get (heap_materials st) mm of Inl e \<Rightarrow> Inl e | Inr mat \<Rightarrow>
      let color = color (maps mat MATERIAL_MAP_DIFFUSE) in
      case ColorTint color tint of Inl e \<Rightarrow> Inl e | Inr colorTint \<Rightarrow>
      let mats1 = (heap_materials st)[nat mm := set_diffuse_color mat colorTint] in
      case array_get (meshes model) j of Inl e \<Rightarrow> Inl e | Inr mesh \<Rightarrow>
      let drawn = (mesh, mats1 ! nat mm, matTransform);
          mats2 = mats1[nat mm := set_diffuse_color (mats1 ! nat mm) color]
      in Inr \<lparr> heap_materials = mats2, calls = calls st @ [drawn] \<rparr>)"

text \<open>
  \<^verbatim>\<open>DrawGLTFNode\<close> calls itself on the children of the node; nothing in the code bounds the
  depth (a node array with a cycle recurses until the stack is exhausted), so the model takes
  the number of nested calls allowed as fuel.
\<close>

fun DrawGLTFNode ::
  "nat \<Rightarrow> 'm raylib \<Rightarrow> 'm GLTFModel \<Rightarrow> int \<Rightarrow> 'm \<Rightarrow> Color \<Rightarrow> 'm draw_state \<Rightarrow> error + 'm draw_state"
where
  "DrawGLTFNode 0 rl model node_id matTransform tint st = Inl StackExhausted"
| "DrawGLTFNode (Suc fuel) rl model node_id matTransform tint st =
     (if node_id \<ge> 0 \<and> node_id < nodeCount model then
        case array_get (nodes model) node_id of Inl e \<Rightarrow> Inl e | Inr node \<Rightarrow>
        let nodeTransform = MatrixMultiply rl (transformMatrix node) matTransform in
        if childrenCount node > 0 then
          iterate (\<lambda>i s. case array_get (children node) i of Inl e \<Rightarrow> Inl e | Inr child \<Rightarrow>
                            DrawGLTFNode fuel rl model child nodeTransform tint s)
            [0 .. childrenCount node - 1] st
        else
          iterate (\<lambda>j s. draw_tinted_mesh model j nodeTransform tint s)
            [meshStart node .. meshEnd node - 1] st
      else Inr st)"

definition DrawGLTFScene ::
  "nat \<Rightarrow> 'm raylib \<Rightarrow> 'm GLTFModel \<Rightarrow> int \<Rightarrow> 'm \<Rightarrow> Color \<Rightarrow> 'm draw_state \<Rightarrow> error + 'm draw_state"
where
  "DrawGLTFScene fuel rl model scene_id matTransform tint st =
     (if scene_id \<ge> 0 \<and> scene_id < sceneCount model then
        case array_get (scenes model) scene_id of Inl e \<Rightarrow> Inl e | Inr sc \<Rightarrow>
        iterate (\<lambda>i s. case array_get (scene_nodes sc) i of Inl e \<Rightarrow> Inl e | Inr node_id \<Rightarrow>
                          DrawGLTFNode fuel rl model node_id matTransform tint s)
          [0 .. scene_nodeCount sc - 1] st
      else Inr st)"

definition has_scene_to_draw :: "'m GLTFModel \<Rightarrow> error + bool" where
  \<comment> \<open>the condition of \<^verbatim>\<open>DrawGLTFModelEx\<close>, \<^verbatim>\<open>&&\<close> evaluated left to right\<close>
  "has_scene_to_draw model =
     (if scene model \<ge> 0 \<and> scene model < sceneCount model then
        case array_get (scenes model) (scene model) of Inl e \<Rightarrow> Inl e
        | Inr sc \<Rightarrow> Inr (scene_nodeCount sc > 0)
      else Inr False)"

definition DrawGLTFModelEx ::
  "nat \<Rightarrow> 'm raylib \<Rightarrow> 'm GLTFModel \<Rightarrow> Vector3 \<Rightarrow> Vector3 \<Rightarrow> float \<Rightarrow> Vector3 \<Rightarrow> Color
   \<Rightarrow> 'm draw_state \<Rightarrow> error + 'm draw_state"
where
  "DrawGLTFModelEx fuel rl model0 position rotationAxis rotationAngle scale_v tint st =
     (let matScale = MatrixScale rl (v3_x scale_v) (v3_y scale_v) (v3_z scale_v);
          matRotation = MatrixRotate rl rotationAxis (fl32 (rotationAngle * DEG2RAD rl));
          matTranslation = MatrixTranslate rl (v3_x position) (v3_y position) (v3_z position);
          matTransform = MatrixMultiply rl (MatrixMultiply rl matScale matRotation) matTranslation;
          model = model0\<lparr> model_transform := MatrixMultiply rl (model_transform model0) matTransform \<rparr>
      in case has_scene_to_draw model of Inl e \<Rightarrow> Inl e
         | Inr True \<Rightarrow> DrawGLTFScene fuel rl model (scene model) (model_transform model) tint st
         | Inr False \<Rightarrow>
             iterate (\<lambda>i s. draw_tinted_mesh model i (model_transform model) tint s)
               [0 .. meshCount model - 1] st)"

definition DrawGLTFModel ::
  "nat \<Rightarrow> 'm raylib \<Rightarrow> 'm GLTFModel \<Rightarrow> Vector3 \<Rightarrow> float \<Rightarrow> Color
   \<Rightarrow> 'm draw_state \<Rightarrow> error + 'm draw_state"
where
  "DrawGLTFModel fuel rl model position scale_f tint st =
     (let vScale = \<lparr> v3_x = scale_f, v3_y = scale_f, v3_z = scale_f \<rparr>;
          rotationAxis = \<lparr> v3_x = 0, v3_y = 1, v3_z = 0 \<rparr>
      in DrawGLTFModelEx fuel rl model position rotationAxis 0 vScale tint st)"

subsection \<open>Parsed glTF data (cgltf)\<close>

text \<open>
  The structures of cgltf.h, with the fields the loader reads. A pointer into an array of
  the parsed data is the index of the element it points to, \<open>None\<close> for \<^verbatim>\<open>NULL\<close>. An
  accessor carries the bytes of the buffer its view points into (empty when the buffer was
  not loaded).
\<close>

datatype cgltf_file_type =
  cgltf_file_type_invalid | cgltf_file_type_gltf | cgltf_file_type_glb

datatype cgltf_primitive_type =
  cgltf_primitive_type_points | cgltf_primitive_type_lines | cgltf_primitive_type_line_loop
| cgltf_primitive_type_line_strip | cgltf_primitive_type_triangles
| cgltf_primitive_type_triangle_strip | cgltf_primitive_type_triangle_fan

datatype cgltf_component_type =
  cgltf_component_type_invalid | cgltf_component_type_r_8 | cgltf_component_type_r_8u
| cgltf_component_type_r_16 | cgltf_component_type_r_16u | cgltf_component_type_r_32u
| cgltf_component_type_r_32f

datatype cgltf_type =
  cgltf_type_invalid | cgltf_type_scalar | cgltf_type_vec2 | cgltf_type_vec3 | cgltf_type_vec4
| cgltf_type_mat2 | cgltf_type_mat3 | cgltf_type_mat4

datatype cgltf_attribute_type =
  cgltf_attribute_type_invalid | cgltf_attribute_type_position | cgltf_attribute_type_normal
| cgltf_attribute_type_tangent | cgltf_attribute_type_texcoord | cgltf_attribute_type_color
| cgltf_attribute_type_joints | cgltf_attribute_type_weights

record cgltf_accessor =
  component_type :: cgltf_component_type
  accessor_type :: cgltf_type
  accessor_offset :: nat
  accessor_count :: nat
  accessor_stride :: nat
  buffer_view_offset :: nat          \<comment> \<open>\<^verbatim>\<open>buffer_view->offset\<close>\<close>
  buffer_data :: "8 word list"       \<comment> \<open>\<^verbatim>\<open>buffer_view->buffer->data\<close>\<close>

record cgltf_attribute =
  attribute_type :: cgltf_attribute_type
  attribute_data :: cgltf_accessor

record cgltf_primitive =
  primitive_type :: cgltf_primitive_type
  primitive_indices :: "cgltf_accessor option"
  primitive_material :: "nat option"
  attributes :: "cgltf_attribute list"

record cgltf_mesh =
  primitives :: "cgltf_primitive list"

text \<open>A texture is named by a number; \<open>None\<close> is a texture view without texture.\<close>

record cgltf_pbr_metallic_roughness =
  base_color_texture :: "nat option"
  metallic_roughness_texture :: "nat option"
  base_color_factor :: "float \<times> float \<times> float \<times> float"
  metallic_factor :: float
  roughness_factor :: float

record cgltf_material =
  has_pbr_metallic_roughness :: bool
  pbr_metallic_roughness :: cgltf_pbr_metallic_roughness
  normal_texture :: "nat option"
  occlusion_texture :: "nat option"
  emissive_texture :: "nat option"
  emissive_factor :: "float \<times> float \<times> float"

record cgltf_node =
  node_mesh :: "nat option"
  node_children :: "nat list"
  has_translation :: bool
  has_rotation :: bool
  has_scale :: bool
  node_translation :: Vector3
  node_rotation :: Quaternion
  node_scale :: Vector3

record cgltf_scene =
  cgltf_scene_nodes :: "nat list"

record cgltf_data =
  file_type :: cgltf_file_type
  data_meshes :: "cgltf_mesh list"
  data_materials :: "cgltf_material list"
  data_nodes :: "cgltf_node list"
  data_scenes :: "cgltf_scene list"
  data_scene :: "nat option"

text \<open>What \<^verbatim>\<open>LoadFileData\<close> and \<^verbatim>\<open>cgltf_parse\<close> give for a file name.\<close>

datatype file_input = FileUnreadable | ParseFailed | Parsed cgltf_data

subsection \<open>Loading\<close>

text \<open>The \<^verbatim>\<open>LOG_WARNING\<close> messages of the modelled code, as their format strings, in order.\<close>

type_synonym log = "string list"

fun map_e :: "('a \<Rightarrow> error + 'b) \<Rightarrow> 'a list \<Rightarrow> error + 'b list" where
  "map_e f [] = Inr []"
| "map_e f (x # xs) =
     (case f x of Inl e \<Rightarrow> Inl e | Inr y \<Rightarrow>
      case map_e f xs of Inl e \<Rightarrow> Inl e | Inr ys \<Rightarrow> Inr (y # ys))"

text \<open>
  \<^verbatim>\<open>buffer[e]\<close> for a buffer of elements of \<open>sz\<close> bytes each: the element is read from
  the bytes \<open>e * sz\<close> and following, least significant byte first.
\<close>

definition read_le :: "8 word list \<Rightarrow> nat \<Rightarrow> nat \<Rightarrow> error + 'a::len word" where
  "read_le bytes sz e =
     (if (e + 1) * sz \<le> length bytes
      then Inr (of_nat (foldr (\<lambda>b acc. unat b + 256 * acc) (take sz (drop (e * sz) bytes)) 0))
      else Inl OutOfBounds)"

text \<open>
  The macro \<^verbatim>\<open>LOAD_ATTRIBUTE(accesor, numComp, dataType, dstPtr)\<close>, \<open>sz\<close> being
  \<^verbatim>\<open>sizeof(dataType)\<close>: the contents of \<^verbatim>\<open>dstPtr\<close> after the two loops.
\<close>

definition LOAD_ATTRIBUTE :: "cgltf_accessor \<Rightarrow> nat \<Rightarrow> nat \<Rightarrow> error + 'a::len word list" where
  "LOAD_ATTRIBUTE accesor numComp sz =
     (let first = buffer_view_offset accesor div sz + accessor_offset accesor div sz;
          step = accessor_stride accesor div sz
      in case map_e (\<lambda>k. map_e (\<lambda>l. read_le (buffer_data accesor) sz (first + k * step + l))
                              [0 ..< numComp])
                [0 ..< accessor_count accesor]
         of Inl e \<Rightarrow> Inl e | Inr rows \<Rightarrow> Inr (concat rows))"

text \<open>The value of a \<^verbatim>\<open>float\<close> from its 32 bits; infinities and NaNs have none.\<close>

definition float_of_bits :: "32 word \<Rightarrow> rat option" where
  "float_of_bits w =
     (let s = unat w div 2 ^ 31; e = unat w div 2 ^ 23 mod 256; m = unat w mod 2 ^ 23;
          mag = (if e = 0 then of_nat m * pow2 (- 149)
                 else of_nat (2 ^ 23 + m) * pow2 (int e - 150))
      in if e = 255 then None else Some (if s = 1 then - mag else mag))"

definition color_of_u16 :: "16 word \<Rightarrow> error + 8 word" where
  \<comment> \<open>\<^verbatim>\<open>(unsigned char)(((float)temp[c]/65535.0f)*255.0f)\<close>\<close>
  "color_of_u16 v = uchar_of_float (fl32 (fl32 (of_nat (unat v) / 65535) * 255))"

definition color_of_f32 :: "32 word \<Rightarrow> error + 8 word" where
  \<comment> \<open>\<^verbatim>\<open>(unsigned char)(temp[c]*255.0f)\<close>\<close>
  "color_of_f32 v = (case float_of_bits v of None \<Rightarrow> Inl UndefinedConversion
                     | Some x \<Rightarrow> uchar_of_float (fl32 (x * 255)))"

text \<open>One pass of the loop over the attributes of a primitive, on the mesh being filled.\<close>

definition load_attribute :: "cgltf_attribute \<Rightarrow> Mesh \<times> log \<Rightarrow> error + Mesh \<times> log" where
  "load_attribute attr ml =
     (let mesh = fst ml; lg = snd ml; attribute = attribute_data attr;
          is_f32 = (component_type attribute = cgltf_component_type_r_32f)
      in
      if attribute_type attr = cgltf_attribute_type_position then
        if is_f32 \<and> accessor_type attribute = cgltf_type_vec3 then
          case LOAD_ATTRIBUTE attribute 3 4 of Inl e \<Rightarrow> Inl e
          | Inr d \<Rightarrow> Inr (mesh\<lparr> vertexCount := int (accessor_count attribute), vertices := Some d \<rparr>, lg)
        else Inr (mesh, lg @ [''MODEL: [%s] Vertices attribute data format not supported, use vec3 float''])
      else if attribute_type attr = cgltf_attribute_type_normal then
        if is_f32 \<and> accessor_type attribute = cgltf_type_vec3 then
          case LOAD_ATTRIBUTE attribute 3 4 of Inl e \<Rightarrow> Inl e
          | Inr d \<Rightarrow> Inr (mesh\<lparr> normals := Some d \<rparr>, lg)
        else Inr (mesh, lg @ [''MODEL: [%s] Normal attribute data format not supported, use vec3 float''])
      else if attribute_type attr = cgltf_attribute_type_tangent then
        if is_f32 \<and> accessor_type attribute = cgltf_type_vec4 then
          case LOAD_ATTRIBUTE attribute 4 4 of Inl e \<Rightarrow> Inl e
          | Inr d \<Rightarrow> Inr (mesh\<lparr> tangents := Some d \<rparr>, lg)
        else Inr (mesh, lg @ [''MODEL: [%s] Tangent attribute data format not supported, use vec4 float''])
      else if attribute_type attr = cgltf_attribute_type_texcoord then
        if is_f32 \<and> accessor_type attribute = cgltf_type_vec2 then
          case LOAD_ATTRIBUTE attribute 2 4 of Inl e \<Rightarrow> Inl e
          | Inr d \<Rightarrow> Inr (mesh\<lparr> texcoords := Some d \<rparr>, lg)
        else Inr (mesh, lg @ [''MODEL: [%s] Texcoords attribute data format not supported, use vec2 float''])
      else if attribute_type attr = cgltf_attribute_type_color then
        if component_type attribute = cgltf_component_type_r_8u
           \<and> accessor_type attribute = cgltf_type_vec4 then
          case LOAD_ATTRIBUTE attribute 4 1 of Inl e \<Rightarrow> Inl e
          | Inr d \<Rightarrow> Inr (mesh\<lparr> colors := Some d \<rparr>, lg)
        else if component_type attribute = cgltf_component_type_r_16u
           \<and> accessor_type attribute = cgltf_type_vec4 then
          case LOAD_ATTRIBUTE attribute 4 2 of Inl e \<Rightarrow> Inl e
          | Inr temp \<Rightarrow>
              (case map_e color_of_u16 temp of Inl e \<Rightarrow> Inl e
               | Inr d \<Rightarrow> Inr (mesh\<lparr> colors := Some d \<rparr>, lg))
        else if is_f32 \<and> accessor_type attribute = cgltf_type_vec4 then
          case LOAD_ATTRIBUTE attribute 4 4 of Inl e \<Rightarrow> Inl e
          | Inr temp \<Rightarrow>
              (case map_e color_of_f32 temp of Inl e \<Rightarrow> Inl e
               | Inr d \<Rightarrow> Inr (mesh\<lparr> colors := Some d \<rparr>, lg))
        else Inr (mesh, lg @ [''MODEL: [%s] Color attribute data format not supported''])
      else Inr (mesh, lg))"

text \<open>
  The indices of a primitive: 16-bit indices are copied, 32-bit indices are read into a
  temporary array and each is cast to \<^verbatim>\<open>unsigned short\<close>.
\<close>

definition load_indices :: "cgltf_accessor option \<Rightarrow> Mesh \<times> log \<Rightarrow> error + Mesh \<times> log" where
  "load_indices ind ml =
     (let mesh = fst ml; lg = snd ml in
      case ind of
        None \<Rightarrow> Inr (mesh\<lparr> triangleCount := vertexCount mesh div 3 \<rparr>, lg)
      | Some attribute \<Rightarrow>
          let mesh1 = mesh\<lparr> triangleCount := int (accessor_count attribute) div 3 \<rparr> in
          if component_type attribute = cgltf_component_type_r_16u then
            case LOAD_ATTRIBUTE attribute 1 2 of Inl e \<Rightarrow> Inl e
            | Inr d \<Rightarrow> Inr (mesh1\<lparr> indices := Some d \<rparr>, lg)
          else if component_type attribute = cgltf_component_type_r_32u then
            case (LOAD_ATTRIBUTE attribute 1 4 :: error + 32 word list) of Inl e \<Rightarrow> Inl e
            | Inr temp \<Rightarrow>
                Inr (mesh1\<lparr> indices := Some (map ucast temp) \<rparr>,
                     lg @ [''MODEL: [%s] Indices data converted from u32 to u16, possible loss of data''])
          else Inr (mesh1, lg @ [''MODEL: [%s] Indices data format not supported, use u16'']))"

text \<open>
  The state of the loops over the meshes and their primitives: the arrays
  \<^verbatim>\<open>model.meshes\<close> and \<^verbatim>\<open>model.meshMaterial\<close>, the counter \<^verbatim>\<open>meshIndex\<close> and the log.
\<close>

record load_state =
  ld_meshes :: "Mesh list"
  ld_meshMaterial :: "int list"
  meshIndex :: nat
  ld_log :: log

definition load_primitive :: "nat \<Rightarrow> cgltf_primitive \<Rightarrow> load_state \<Rightarrow> error + load_state" where
  "load_primitive materials_count prim s =
     (if primitive_type prim \<noteq> cgltf_primitive_type_triangles then Inr s
      else
        case array_get (ld_meshes s) (int (meshIndex s)) of Inl e \<Rightarrow> Inl e | Inr mesh0 \<Rightarrow>
        case iterate load_attribute (attributes prim) (mesh0, ld_log s) of Inl e \<Rightarrow> Inl e | Inr ml1 \<Rightarrow>
        case load_indices (primitive_indices prim) ml1 of Inl e \<Rightarrow> Inl e | Inr ml2 \<Rightarrow>
        if length (ld_meshMaterial s) \<le> meshIndex s then Inl OutOfBounds
        else Inr \<lparr> ld_meshes = (ld_meshes s)[meshIndex s := fst ml2],
                   ld_meshMaterial =
                     (case find (\<lambda>m. primitive_material prim = Some m) [0 ..< materials_count] of
                        None \<Rightarrow> ld_meshMaterial s
                      | Some m \<Rightarrow> (ld_meshMaterial s)[meshIndex s := int m + 1]),
                   meshIndex = meshIndex s + 1,
                   ld_log = snd ml2 \<rparr>)"

text \<open>
  One pass of the loop over the source meshes: \<^verbatim>\<open>mesh_id_starts[i]\<close> and
  \<^verbatim>\<open>mesh_id_ends[i]\<close> are the values of \<^verbatim>\<open>meshIndex\<close> before and after the primitives of
  mesh \<open>i\<close>.
\<close>

definition load_mesh ::
  "cgltf_data \<Rightarrow> nat \<Rightarrow> load_state \<times> int list \<times> int list
   \<Rightarrow> error + load_state \<times> int list \<times> int list" where
  "load_mesh data i acc =
     (let s = fst acc; mesh_id_starts = fst (snd acc); mesh_id_ends = snd (snd acc) in
      case iterate (load_primitive (length (data_materials data)))
             (primitives (data_meshes data ! i)) s
      of Inl e \<Rightarrow> Inl e
       | Inr s' \<Rightarrow> Inr (s', mesh_id_starts[i := int (meshIndex s)],
                        mesh_id_ends[i := int (meshIndex s')]))"

text \<open>
  A material: the default material, changed by what the source material gives. The image
  resolver and the texture upload are outside the model: \<open>load_texture t\<close> is the texture
  made from the image of texture \<open>t\<close> of the file, \<open>None\<close> when the image cannot be loaded.
\<close>

definition set_texture :: "nat \<Rightarrow> nat option \<Rightarrow> Material \<Rightarrow> Material" where
  "set_texture k loaded mat =
     (case loaded of None \<Rightarrow> mat
      | Some t \<Rightarrow> mat\<lparr> maps := (maps mat)(k := (maps mat k)\<lparr> texture := t \<rparr>) \<rparr>)"

definition factor_to_uchar :: "float \<Rightarrow> error + 8 word" where
  \<comment> \<open>\<^verbatim>\<open>(unsigned char)(factor*255)\<close>, the product in \<^verbatim>\<open>float\<close>\<close>
  "factor_to_uchar f = uchar_of_float (fl32 (f * 255))"

definition load_material :: "'m raylib \<Rightarrow> (nat \<Rightarrow> nat option) \<Rightarrow> cgltf_material \<Rightarrow> error + Material" where
  "load_material rl load_texture src =
     (let mat0 = LoadMaterialDefault rl; pbr = pbr_metallic_roughness src in
      if has_pbr_metallic_roughness src then
        let mat1 = (case base_color_texture pbr of None \<Rightarrow> mat0
                    | Some t \<Rightarrow> set_texture MATERIAL_MAP_ALBEDO (load_texture t) mat0) in
        case factor_to_uchar (fst (base_color_factor pbr)) of Inl e \<Rightarrow> Inl e | Inr cr \<Rightarrow>
        case factor_to_uchar (fst (snd (base_color_factor pbr))) of Inl e \<Rightarrow> Inl e | Inr cg \<Rightarrow>
        case factor_to_uchar (fst (snd (snd (base_color_factor pbr)))) of Inl e \<Rightarrow> Inl e | Inr cb \<Rightarrow>
        case factor_to_uchar (snd (snd (snd (base_color_factor pbr)))) of Inl e \<Rightarrow> Inl e | Inr ca \<Rightarrow>
        let mat2 = mat1\<lparr> maps := (maps mat1)(MATERIAL_MAP_ALBEDO := (maps mat1 MATERIAL_MAP_ALBEDO)
                      \<lparr> color := \<lparr> color_r = cr, color_g = cg, color_b = cb, color_a = ca \<rparr> \<rparr>) \<rparr>;
            mat3 = (case metallic_roughness_texture pbr of None \<Rightarrow> mat2
                    | Some t \<Rightarrow>
                        let m = set_texture MATERIAL_MAP_ROUGHNESS (load_texture t) mat2;
                            m' = m\<lparr> maps := (maps m)(MATERIAL_MAP_ROUGHNESS :=
                                   (maps m MATERIAL_MAP_ROUGHNESS)\<lparr> value := roughness_factor pbr \<rparr>) \<rparr>
                        in m'\<lparr> maps := (maps m')(MATERIAL_MAP_METALNESS :=
                                   (maps m' MATERIAL_MAP_METALNESS)\<lparr> value := metallic_factor pbr \<rparr>) \<rparr>);
            mat4 = (case normal_texture src of None \<Rightarrow> mat3
                    | Some t \<Rightarrow> set_texture MATERIAL_MAP_NORMAL (load_texture t) mat3);
            mat5 = (case occlusion_texture src of None \<Rightarrow> mat4
                    | Some t \<Rightarrow> set_texture MATERIAL_MAP_OCCLUSION (load_texture t) mat4)
        in case emissive_texture src of None \<Rightarrow> Inr mat5
           | Some t \<Rightarrow>
               let m = set_texture MATERIAL_MAP_EMISSION (load_texture t) mat5 in
               case factor_to_uchar (fst (emissive_factor src)) of Inl e \<Rightarrow> Inl e | Inr er \<Rightarrow>
               case factor_to_uchar (fst (snd (emissive_factor src))) of Inl e \<Rightarrow> Inl e | Inr eg \<Rightarrow>
               case factor_to_uchar (snd (snd (emissive_factor src))) of Inl e \<Rightarrow> Inl e | Inr eb \<Rightarrow>
               Inr (m\<lparr> maps := (maps m)(MATERIAL_MAP_EMISSION := (maps m MATERIAL_MAP_EMISSION)
                      \<lparr> color := \<lparr> color_r = er, color_g = eg, color_b = eb, color_a = 255 \<rparr> \<rparr>) \<rparr>)
      else Inr mat0)"

text \<open>
  A node. The node array is zero-initialised, so a field the code does not assign is 0.
  \<open>mesh_id_starts\<close> and \<open>mesh_id_ends\<close> are the tables filled by the mesh loop.
\<close>

definition zero_Transform :: Transform where
  "zero_Transform = \<lparr> translation = \<lparr> v3_x = 0, v3_y = 0, v3_z = 0 \<rparr>,
     rotation = \<lparr> q_x = 0, q_y = 0, q_z = 0, q_w = 0 \<rparr>,
     scale = \<lparr> v3_x = 0, v3_y = 0, v3_z = 0 \<rparr> \<rparr>"

definition load_node ::
  "'m raylib \<Rightarrow> int list \<Rightarrow> int list \<Rightarrow> cgltf_node \<Rightarrow> error + 'm GLTFNode" where
  "load_node rl mesh_id_starts mesh_id_ends src =
     (case (case node_mesh src of None \<Rightarrow> Inr (- 1, - 1)
            | Some mesh_id \<Rightarrow>
                (case array_get mesh_id_starts (int mesh_id) of Inl e \<Rightarrow> Inl e | Inr ms \<Rightarrow>
                 case array_get mesh_id_ends (int mesh_id) of Inl e \<Rightarrow> Inl e | Inr me \<Rightarrow>
                   Inr (ms, me)))
      of Inl e \<Rightarrow> Inl e
       | Inr mesh_range \<Rightarrow>
         let t0 = zero_Transform;
             t1 = (if has_translation src then t0\<lparr> translation := node_translation src \<rparr> else t0);
             matTranslation =
               (if has_translation src
                then MatrixTranslate rl (v3_x (translation t1)) (v3_y (translation t1))
                       (v3_z (translation t1))
                else MatrixIdentity rl);
             t2 = (if has_rotation src then t1\<lparr> rotation := node_rotation src \<rparr> else t1);
             matRotation =
               (if has_rotation src then QuaternionToMatrix rl (rotation t2) else MatrixIdentity rl);
             t3 = (if has_scale src then t2\<lparr> scale := node_scale src \<rparr>
                   else t2\<lparr> scale := \<lparr> v3_x = 1, v3_y = 1, v3_z = 1 \<rparr> \<rparr>);
             matScale =
               (if has_scale src
                then MatrixScale rl (v3_x (scale t3)) (v3_y (scale t3)) (v3_z (scale t3))
                else MatrixIdentity rl)
         in Inr \<lparr> childrenCount = int (length (node_children src)),
                  children = map int (node_children src),
                  meshStart = fst mesh_range, meshEnd = snd mesh_range,
                  transform = t3,
                  transformMatrix =
                    MatrixMultiply rl (MatrixMultiply rl matScale matRotation) matTranslation \<rparr>)"

definition load_scene :: "cgltf_scene \<Rightarrow> GLTFScene" where
  "load_scene src = \<lparr> scene_nodeCount = int (length (cgltf_scene_nodes src)),
                      scene_nodes = map int (cgltf_scene_nodes src) \<rparr>"

definition zero_GLTFModel :: "'m raylib \<Rightarrow> 'm GLTFModel" where
  \<comment> \<open>\<^verbatim>\<open>GLTFModel model = { 0 }\<close>\<close>
  "zero_GLTFModel rl = \<lparr> model_transform = zero_Matrix rl, meshCount = 0, materialCount = 0,
     meshes = [], materials = [], meshMaterial = [], nodeCount = 0, nodes = [],
     sceneCount = 0, scenes = [], scene = 0 \<rparr>"

text \<open>
  \<^verbatim>\<open>LoadGLTFModelFile\<close>. \<open>null_scene\<close> is the value the code gets for
  \<^verbatim>\<open>data->scene - data->scenes\<close> when the file names no default scene and \<^verbatim>\<open>data->scene\<close>
  is \<^verbatim>\<open>NULL\<close>.
\<close>

definition LoadGLTFModelFile ::
  "'m raylib \<Rightarrow> (nat \<Rightarrow> nat option) \<Rightarrow> int \<Rightarrow> file_input \<Rightarrow> error + 'm GLTFModel \<times> log" where
  "LoadGLTFModelFile rl load_texture null_scene input =
     (case input of
        FileUnreadable \<Rightarrow> Inr (zero_GLTFModel rl, [])
      | ParseFailed \<Rightarrow> Inr (zero_GLTFModel rl, [''MODEL: [%s] Failed to load glTF data''])
      | Parsed data \<Rightarrow>
          let lg0 = (if file_type data = cgltf_file_type_glb \<or> file_type data = cgltf_file_type_gltf
                     then [] else [''MODEL: [%s] Model format not recognized'']);
              meshes_count = length (data_meshes data);
              primitivesCount = (\<Sum>m \<leftarrow> data_meshes data. int (length (primitives m)));
              s0 = \<lparr> ld_meshes = replicate (nat primitivesCount) zero_Mesh,
                     ld_meshMaterial = replicate (nat primitivesCount) 0,
                     meshIndex = 0, ld_log = lg0 \<rparr>
          in
          case map_e (load_material rl load_texture) (data_materials data) of Inl e \<Rightarrow> Inl e
          | Inr mats \<Rightarrow>
          case iterate (load_mesh data) [0 ..< meshes_count]
                 (s0, replicate meshes_count 0, replicate meshes_count 0) of Inl e \<Rightarrow> Inl e
          | Inr loaded \<Rightarrow>
          case map_e (load_node rl (fst (snd loaded)) (snd (snd loaded))) (data_nodes data)
          of Inl e \<Rightarrow> Inl e
          | Inr ns \<Rightarrow>
            let model = (zero_GLTFModel rl)\<lparr>
                  meshCount := primitivesCount,
                  meshes := ld_meshes (fst loaded),
                  materialCount := int (length (data_materials data)) + 1,
                  materials := LoadMaterialDefault rl # mats,
                  meshMaterial := ld_meshMaterial (fst loaded),
                  nodeCount := int (length (data_nodes data)),
                  nodes := ns \<rparr>;
                model' = (if 0 < length (data_scenes data)
                          then model\<lparr>
                                 scene := (case data_scene data of None \<Rightarrow> null_scene
                                           | Some k \<Rightarrow> int k),
                                 sceneCount := int (length (data_scenes data)),
                                 scenes := map load_scene (data_scenes data) \<rparr>
                          else model)
            in Inr (model', ld_log (fst loaded)))"

text \<open>
  \<^verbatim>\<open>LoadGLTFModel\<close>. \<^verbatim>\<open>UploadMesh\<close> fills GPU handles only, which the model leaves out.
\<close>

definition LoadGLTFModel ::
  "'m raylib \<Rightarrow> (nat \<Rightarrow> nat option) \<Rightarrow> int \<Rightarrow> file_input \<Rightarrow> error + 'm GLTFModel \<times> log" where
  "LoadGLTFModel rl load_texture null_scene input =
     (case LoadGLTFModelFile rl load_texture null_scene input of Inl e \<Rightarrow> Inl e
      | Inr loaded \<Rightarrow>
        let model0 = (fst loaded)\<lparr> model_transform := MatrixIdentity rl \<rparr>;
            lg0 = snd loaded;
            model1 = (if meshCount model0 = 0
                      then model0\<lparr> meshCount := 1,
                             meshes := [if SUPPORT_MESH_GENERATION rl then GenMeshCube rl 1 1 1
                                        else zero_Mesh] \<rparr>
                      else model0);
            lg1 = (if meshCount model0 = 0
                   then lg0 @ [if SUPPORT_MESH_GENERATION rl
                               then ''MESH: [%s] Failed to load mesh data, default to cube mesh''
                               else ''MESH: [%s] Failed to load mesh data'']
                   else lg0);
            model2 = (if materialCount model1 = 0
                      then model1\<lparr> materialCount := 1,
                             materials := [LoadMaterialDefault rl],
                             meshMaterial := (if meshMaterial model1 = []
                                              then replicate (nat (meshCount model1)) 0
                                              else meshMaterial model1) \<rparr>
                      else model1);
            lg2 = (if materialCount model1 = 0
                   then lg1 @ [''MATERIAL: [%s] Failed to load material data, default to white material'']
                   else lg1)
        in Inr (model2, lg2))"

subsection \<open>What the specification says about the loaded mesh materials\<close>

text \<open>
  The triangle primitives of the file in order, the number of all its primitives, and the
  material index the specification gives a primitive: \<open>m + 1\<close> for source material \<open>m\<close>,
  0 without a material reference or with an unmatched one.
\<close>

definition is_triangles :: "cgltf_primitive \<Rightarrow> bool" where
  "is_triangles p = (primitive_type p = cgltf_primitive_type_triangles)"

definition triangle_primitives :: "cgltf_data \<Rightarrow> cgltf_primitive list" where
  "triangle_primitives data = filter is_triangles (concat (map primitives (data_meshes data)))"

definition material_index :: "nat \<Rightarrow> cgltf_primitive \<Rightarrow> int" where
  "material_index n p = (case primitive_material p of None \<Rightarrow> 0
                         | Some m \<Rightarrow> if m < n then int m + 1 else 0)"

definition primitivesCount :: "cgltf_data \<Rightarrow> int" where
  "primitivesCount data = (\<Sum>m \<leftarrow> data_meshes data. int (length (primitives m)))"


text \<open>The number of triangle primitives in the source meshes before mesh \<open>i\<close>.\<close>

definition triangles_before :: "cgltf_data \<Rightarrow> nat \<Rightarrow> int" where
  "triangles_before data i =
     int (length (filter is_triangles (concat (map primitives (take i (data_meshes data))))))"


text \<open>A \<^verbatim>\<open>DrawMesh\<close> call without its material: the mesh and the transform.\<close>

definition mesh_and_transform :: "(Mesh \<times> Material \<times> 'm) \<Rightarrow> Mesh \<times> 'm" where
  "mesh_and_transform d = (fst d, snd (snd d))"


text \<open>A mesh that can be drawn: its index, its material index and the material exist.\<close>

definition mesh_drawable :: "'m GLTFModel \<Rightarrow> 'm draw_state \<Rightarrow> int \<Rightarrow> bool" where
  "mesh_drawable model st j =
     (0 \<le> j \<and> j < int (length (meshes model)) \<and> j < int (length (meshMaterial model))
      \<and> 0 \<le> meshMaterial model ! nat j
      \<and> meshMaterial model ! nat j < int (length (heap_materials st)))"

subsection \<open>A small model to evaluate the code on\<close>

text \<open>
  Matrices as terms over the raymath operations, so that a transform shows how it was
  composed; a model of two materials, two meshes and three nodes, node 0 having the two
  others as children and a mesh range of its own.
\<close>

datatype sym_matrix =
  M_Zero
| M_Identity
| M_Param nat
| M_Translate float float float
| M_Scale float float float
| M_Rotate Vector3 float
| M_Quaternion Quaternion
| M_Multiply sym_matrix sym_matrix

definition ex_map :: "Color \<Rightarrow> MaterialMap" where
  "ex_map c = \<lparr> texture = 0, color = c, value = 0 \<rparr>"

definition BLANK :: Color where
  "BLANK = \<lparr> color_r = 0, color_g = 0, color_b = 0, color_a = 0 \<rparr>"

definition RED :: Color where
  "RED = \<lparr> color_r = 255, color_g = 0, color_b = 0, color_a = 255 \<rparr>"

definition GRAY :: Color where
  "GRAY = \<lparr> color_r = 128, color_g = 128, color_b = 128, color_a = 255 \<rparr>"

definition ex_material :: "Color \<Rightarrow> Material" where
  "ex_material c = \<lparr> maps = (\<lambda>k. ex_map BLANK)(MATERIAL_MAP_DIFFUSE := ex_map c) \<rparr>"

definition ex_raylib :: "sym_matrix raylib" where
  "ex_raylib = \<lparr> zero_Matrix = M_Zero, MatrixIdentity = M_Identity, MatrixMultiply = M_Multiply,
     MatrixTranslate = M_Translate, MatrixScale = M_Scale, MatrixRotate = M_Rotate,
     QuaternionToMatrix = M_Quaternion, DEG2RAD = 1 / 64,
     LoadMaterialDefault = ex_material WHITE,
     GenMeshCube = (\<lambda>w h l. zero_Mesh\<lparr> vertexCount := 24, triangleCount := 12 \<rparr>),
     SUPPORT_MESH_GENERATION = True \<rparr>"

definition ex_transform :: Transform where
  "ex_transform = \<lparr> translation = \<lparr> v3_x = 0, v3_y = 0, v3_z = 0 \<rparr>,
     rotation = \<lparr> q_x = 0, q_y = 0, q_z = 0, q_w = 1 \<rparr>,
     scale = \<lparr> v3_x = 1, v3_y = 1, v3_z = 1 \<rparr> \<rparr>"

definition ex_node :: "int list \<Rightarrow> int \<Rightarrow> int \<Rightarrow> nat \<Rightarrow> sym_matrix GLTFNode" where
  "ex_node cs ms me k = \<lparr> childrenCount = int (length cs), children = cs, meshStart = ms,
     meshEnd = me, transform = ex_transform, transformMatrix = M_Param k \<rparr>"

definition ex_mesh :: "int \<Rightarrow> Mesh" where
  "ex_mesh n = zero_Mesh\<lparr> vertexCount := 3 * n, triangleCount := n \<rparr>"

definition ex_model :: "sym_matrix GLTFModel" where
  "ex_model = \<lparr> model_transform = M_Identity, meshCount = 2, materialCount = 2,
     meshes = [ex_mesh 1, ex_mesh 2], materials = [ex_material WHITE, ex_material RED],
     meshMaterial = [1, 0], nodeCount = 3,
     nodes = [ex_node [1, 2] 0 2 0, ex_node [] 0 1 1, ex_node [] 1 2 2],
     sceneCount = 1, scenes = [\<lparr> scene_nodeCount = 1, scene_nodes = [0] \<rparr>], scene = 0 \<rparr>"

definition ex_state :: "sym_matrix draw_state" where
  "ex_state = \<lparr> heap_materials = materials ex_model, calls = [] \<rparr>"


definition ex_position :: Vector3 where
  "ex_position = \<lparr> v3_x = 1, v3_y = 2, v3_z = 3 \<rparr>"

definition ex_flat_transform :: sym_matrix where
  "ex_flat_transform = M_Multiply M_Identity
     (M_Multiply (M_Multiply (M_Scale 2 2 2) (M_Rotate \<lparr> v3_x = 0, v3_y = 1, v3_z = 0 \<rparr> 0))
        (M_Translate 1 2 3))"

definition ex_drawn :: "sym_matrix \<Rightarrow> sym_matrix \<Rightarrow> sym_matrix draw_state" where
  "ex_drawn T1 T2 = \<lparr> heap_materials = materials ex_model,
     calls = [(ex_mesh 1, ex_material \<lparr> color_r = 128, color_g = 0, color_b = 0, color_a = 255 \<rparr>, T1),
              (ex_mesh 2, ex_material GRAY, T2)] \<rparr>"



definition ex_accessor :: "cgltf_component_type \<Rightarrow> nat \<Rightarrow> nat \<Rightarrow> 8 word list \<Rightarrow> cgltf_accessor" where
  "ex_accessor ct n stride bytes = \<lparr> component_type = ct, accessor_type = cgltf_type_scalar,
     accessor_offset = 0, accessor_count = n, accessor_stride = stride,
     buffer_view_offset = 0, buffer_data = bytes \<rparr>"

definition ex_pbr :: "nat option \<Rightarrow> float \<Rightarrow> float \<Rightarrow> cgltf_pbr_metallic_roughness" where
  "ex_pbr mr_tex metallic roughness = \<lparr> base_color_texture = None,
     metallic_roughness_texture = mr_tex, base_color_factor = (1, 1 / 2, 0, 1),
     metallic_factor = metallic, roughness_factor = roughness \<rparr>"

definition ex_cgltf_material :: "nat option \<Rightarrow> float \<Rightarrow> float \<Rightarrow> cgltf_material" where
  "ex_cgltf_material mr_tex metallic roughness = \<lparr> has_pbr_metallic_roughness = True,
     pbr_metallic_roughness = ex_pbr mr_tex metallic roughness, normal_texture = None,
     occlusion_texture = None, emissive_texture = None, emissive_factor = (0, 0, 0) \<rparr>"

definition ex_primitive ::
  "cgltf_primitive_type \<Rightarrow> cgltf_accessor option \<Rightarrow> nat option \<Rightarrow> cgltf_primitive" where
  "ex_primitive ty ind mat = \<lparr> primitive_type = ty, primitive_indices = ind,
     primitive_material = mat, attributes = [] \<rparr>"

definition ex_triangle :: cgltf_primitive where
  "ex_triangle = ex_primitive cgltf_primitive_type_triangles
     (Some (ex_accessor cgltf_component_type_r_16u 3 2 [0, 0, 1, 0, 2, 0])) (Some 0)"

definition ex_lines :: cgltf_primitive where
  "ex_lines = ex_primitive cgltf_primitive_type_lines None None"

definition ex_data :: "cgltf_primitive list \<Rightarrow> cgltf_node list \<Rightarrow> cgltf_data" where
  "ex_data prims ns = \<lparr> file_type = cgltf_file_type_gltf,
     data_meshes = [\<lparr> primitives = prims \<rparr>],
     data_materials = [ex_cgltf_material None 0 0],
     data_nodes = ns, data_scenes = [], data_scene = None \<rparr>"

definition ex_triangle_mesh :: Mesh where
  "ex_triangle_mesh = zero_Mesh\<lparr> triangleCount := 1, indices := Some [0, 1, 2] \<rparr>"

definition ex_loaded ::
  "int \<Rightarrow> Mesh list \<Rightarrow> int list \<Rightarrow> sym_matrix GLTFNode list \<Rightarrow> sym_matrix GLTFModel" where
  "ex_loaded n ms mm ns = \<lparr> model_transform = M_Zero, meshCount = n, materialCount = 2,
     meshes = ms,
     materials = [ex_material WHITE,
                  ex_material \<lparr> color_r = 255, color_g = 127, color_b = 0, color_a = 255 \<rparr>],
     meshMaterial = mm, nodeCount = int (length ns), nodes = ns,
     sceneCount = 0, scenes = [], scene = 0 \<rparr>"

definition ex_cgltf_node :: cgltf_node where
  "ex_cgltf_node = \<lparr> node_mesh = None, node_children = [], has_translation = True,
     has_rotation = False, has_scale = False,
     node_translation = \<lparr> v3_x = 1, v3_y = 2, v3_z = 3 \<rparr>,
     node_rotation = \<lparr> q_x = 0, q_y = 0, q_z = 0, q_w = 1 \<rparr>,
     node_scale = \<lparr> v3_x = 1, v3_y = 1, v3_z = 1 \<rparr> \<rparr>"

text \<open>
  A file with one material and no mesh, and the model the loader builds from it: the
  placeholder cube, the default material followed by the material of the file, and no
  entry in \<open>meshMaterial\<close>.
\<close>

definition ex_no_mesh_data :: cgltf_data where
  "ex_no_mesh_data = \<lparr> file_type = cgltf_file_type_gltf, data_meshes = [],
     data_materials = [ex_cgltf_material None 0 0],
     data_nodes = [], data_scenes = [], data_scene = None \<rparr>"

definition ex_placeholder_model :: "sym_matrix GLTFModel" where
  "ex_placeholder_model = \<lparr> model_transform = M_Identity, meshCount = 1, materialCount = 2,
     meshes = [zero_Mesh\<lparr> vertexCount := 24, triangleCount := 12 \<rparr>],
     materials = [ex_material WHITE,
                  ex_material \<lparr> color_r = 255, color_g = 127, color_b = 0, color_a = 255 \<rparr>],
     meshMaterial = [], nodeCount = 0, nodes = [],
     sceneCount = 0, scenes = [], scene = 0 \<rparr>"


subsection \<open>What the specification says about the tinted colour\<close>

text \<open>
  The product of a colour channel and a tint channel as fractions of 255, rescaled to
  0..255, over the rationals: the value the specification gives, with no rounding.
\<close>

definition spec_tint_channel :: "8 word \<Rightarrow> 8 word \<Rightarrow> rat" where
  "spec_tint_channel c t = (of_nat (unat c) / 255) * (of_nat (unat t) / 255) * 255"


section \<open>Properties of the floating-point model\<close>

lemma pow2_powi: "pow2 e = 2 powi e"
  by (simp add: pow2_def power_int_def inverse_eq_divide power_one_over)

lemma pow2_pos: "0 < pow2 e"
  by (simp add: pow2_powi)

lemma pow2_add: "pow2 (a + b) = pow2 a * pow2 b"
  by (simp add: pow2_powi power_int_add)

lemma pow2_mono: "a \<le> b \<Longrightarrow> pow2 a \<le> pow2 b"
  by (simp add: pow2_powi power_int_increasing)

lemma pow2_strict_mono_rev: "pow2 a < pow2 b \<Longrightarrow> a < b"
  using pow2_mono[of b a] by (cases "a < b") auto

lemma pow2_of_nat: "0 \<le> e \<Longrightarrow> pow2 e = 2 ^ nat e"
  by (simp add: pow2_def)

lemma bitlen_pow2_bounds:
  assumes "0 < n"
  shows "pow2 (bitlen n - 1) \<le> of_int n" and "of_int n < pow2 (bitlen n)"
proof -
  from bitlen_bounds[OF assms]
  have lo: "(2::int) ^ nat (bitlen n - 1) \<le> n" and hi: "n < 2 ^ nat (bitlen n)" by auto
  have b1: "1 \<le> bitlen n"
    using assms bitlen_nonneg[of n] bitlen_eq_zero_iff[of n] by (cases "bitlen n = 0") auto
  have "pow2 (bitlen n - 1) = of_int (2 ^ nat (bitlen n - 1))"
    using b1 by (simp add: pow2_of_nat)
  also have "\<dots> \<le> of_int n" using lo by (simp only: of_int_le_iff)
  finally show "pow2 (bitlen n - 1) \<le> of_int n" .
  have "(of_int n :: rat) < of_int (2 ^ nat (bitlen n))" using hi by (simp only: of_int_less_iff)
  also have "\<dots> = pow2 (bitlen n)" using b1 by (simp add: pow2_of_nat)
  finally show "of_int n < pow2 (bitlen n)" .
qed

lemma ilog2_bounds:
  assumes "0 < x"
  shows "pow2 (ilog2 x) \<le> x" and "x < pow2 (ilog2 x + 1)"
proof -
  obtain n d where q: "quotient_of x = (n, d)" by (cases "quotient_of x")
  then have d: "0 < d" and x: "x = of_int n / of_int d"
    using quotient_of_denom_pos[OF q] quotient_of_div[OF q] by auto
  from assms x d have n: "0 < n"
    by (simp add: zero_less_divide_iff)
  note bn = bitlen_pow2_bounds[OF n] and bd = bitlen_pow2_bounds[OF d]
  let ?e0 = "bitlen n - bitlen d"
  have dpos: "(0::rat) < of_int d" using d by simp
  have up: "x < pow2 (?e0 + 1)"
  proof -
    have "of_int n < pow2 (bitlen n)" by (rule bn(2))
    also have "\<dots> = pow2 (?e0 + 1) * pow2 (bitlen d - 1)"
      by (simp add: pow2_add[symmetric])
    also have "\<dots> \<le> pow2 (?e0 + 1) * of_int d"
      using bd(1) pow2_pos[of "?e0 + 1"] by (simp add: mult_left_mono)
    finally show ?thesis using dpos by (simp add: x pos_divide_less_eq)
  qed
  have lo: "pow2 (?e0 - 1) \<le> x"
  proof -
    have "pow2 (?e0 - 1) * of_int d \<le> pow2 (?e0 - 1) * pow2 (bitlen d)"
      using bd(2) pow2_pos[of "?e0 - 1"] by (simp add: mult_left_mono)
    also have "\<dots> = pow2 (bitlen n - 1)"
      by (simp add: pow2_add[symmetric])
    also have "\<dots> \<le> of_int n" by (rule bn(1))
    finally show ?thesis using dpos by (simp add: x pos_le_divide_eq)
  qed
  have il: "ilog2 x = (if pow2 ?e0 \<le> x then ?e0 else ?e0 - 1)"
    using assms q by (simp add: ilog2_def Let_def abs_of_pos)
  show "pow2 (ilog2 x) \<le> x"
    using lo by (simp add: il)
  show "x < pow2 (ilog2 x + 1)"
    using up by (auto simp: il)
qed

lemma round_half_even_error: "\<bar>of_int (round_half_even y) - y\<bar> \<le> 1 / 2"
proof -
  have "of_int \<lfloor>y\<rfloor> \<le> y" "y < of_int \<lfloor>y\<rfloor> + 1" by linarith+
  then show ?thesis
    by (auto simp: round_half_even_def Let_def abs_le_iff)
qed

lemma fl_round_error:
  assumes "pow2 (emin + int p - 1) \<le> x"
  shows "\<bar>fl_round p emin x - x\<bar> \<le> x * pow2 (- int p)"
proof -
  have x0: "0 < x" using assms pow2_pos[of "emin + int p - 1"] by linarith
  have "pow2 (emin + int p - 1) < pow2 (ilog2 x + 1)"
    using assms ilog2_bounds(2)[OF x0] by linarith
  then have e: "emin \<le> ilog2 x - (int p - 1)"
    using pow2_strict_mono_rev by fastforce
  define q where "q = ilog2 x - (int p - 1)"
  have fl: "fl_round p emin x = of_int (round_half_even (x / pow2 q)) * pow2 q"
    using x0 e by (simp add: fl_round_def Let_def q_def max_def)
  have "fl_round p emin x - x = (of_int (round_half_even (x / pow2 q)) - x / pow2 q) * pow2 q"
    using pow2_pos[of q] by (simp add: fl field_simps)
  then have "\<bar>fl_round p emin x - x\<bar> = \<bar>of_int (round_half_even (x / pow2 q)) - x / pow2 q\<bar> * pow2 q"
    using pow2_pos[of q] by (simp add: abs_mult)
  also have "\<dots> \<le> 1 / 2 * pow2 q"
    using round_half_even_error[of "x / pow2 q"] pow2_pos[of q] by (simp add: mult_right_mono)
  also have "\<dots> = pow2 (ilog2 x) * pow2 (- int p)"
  proof -
    have "q = ilog2 x + (- int p) + 1" by (simp add: q_def)
    then have "pow2 q = pow2 (ilog2 x) * pow2 (- int p) * pow2 1"
      by (simp only: pow2_add)
    then show ?thesis by (simp add: pow2_def)
  qed
  also have "\<dots> \<le> x * pow2 (- int p)"
    using ilog2_bounds(1)[OF x0] pow2_pos[of "- int p"] by (simp add: mult_right_mono)
  finally show ?thesis .
qed

lemma fl64_0: "fl64 0 = 0"
  by (simp add: fl64_def fl_round_def)

lemma fl64_bounds:
  assumes "pow2 (- 1022) \<le> x"
  shows "x * (1 - pow2 (- 53)) \<le> fl64 x" and "fl64 x \<le> x * (1 + pow2 (- 53))"
proof -
  have "pow2 (- 1074 + int 53 - 1) \<le> x" using assms by simp
  then have "\<bar>fl_round 53 (- 1074) x - x\<bar> \<le> x * pow2 (- int 53)"
    by (rule fl_round_error)
  then have "\<bar>fl64 x - x\<bar> \<le> x * pow2 (- 53)"
    by (simp add: fl64_def)
  then show "x * (1 - pow2 (- 53)) \<le> fl64 x" and "fl64 x \<le> x * (1 + pow2 (- 53))"
    by (simp_all add: abs_le_iff algebra_simps)
qed

lemma unit_roundoff:
  "0 < pow2 (- 53)" "pow2 (- 53) \<le> 1 / 2"
  "(1 + pow2 (- 53)) ^ 4 \<le> 1 + 5 * pow2 (- 53)" "1 - 4 * pow2 (- 53) \<le> (1 - pow2 (- 53)) ^ 4"
  "1275 * pow2 (- 53) < 1 / 255" "pow2 (- 1022) \<le> 1 / 520200"
proof -
  show "0 < pow2 (- 53)" by (rule pow2_pos)
  show "pow2 (- 53) \<le> 1 / 2" by (simp add: pow2_def)
  show "(1 + pow2 (- 53)) ^ 4 \<le> 1 + 5 * pow2 (- 53)" by (simp add: pow2_def power_divide)
  show "1 - 4 * pow2 (- 53) \<le> (1 - pow2 (- 53)) ^ 4" by (simp add: pow2_def power_divide)
  show "1275 * pow2 (- 53) < 1 / 255" by (simp add: pow2_def)
  have "pow2 (- 1022) \<le> pow2 (- 20)" by (rule pow2_mono) simp
  also have "\<dots> \<le> 1 / 520200" by (simp add: pow2_def)
  finally show "pow2 (- 1022) \<le> 1 / 520200" .
qed

lemma tint_value_bounds:
  fixes c t :: nat
  assumes c: "1 \<le> c" "c \<le> 255" and t: "1 \<le> t" "t \<le> 255"
  shows "of_nat (c * t) / 255 * (1 - pow2 (- 53)) ^ 4
           \<le> fl64 (fl64 (fl64 (of_nat c / 255) * fl64 (of_nat t / 255)) * 255)"
    and "fl64 (fl64 (fl64 (of_nat c / 255) * fl64 (of_nat t / 255)) * 255)
           \<le> of_nat (c * t) / 255 * (1 + pow2 (- 53)) ^ 4"
proof -
  define U where "U = pow2 (- 53)"
  define A :: rat where "A = of_nat c / 255"
  define B :: rat where "B = of_nat t / 255"
  define a where "a = fl64 A"
  define b where "b = fl64 B"
  define p where "p = fl64 (a * b)"
  define q where "q = fl64 (p * 255)"
  have U: "0 < U" "U \<le> 1 / 2" using unit_roundoff(1,2) by (simp_all add: U_def)
  have tiny: "pow2 (- 1022) \<le> 1 / 520200" by (rule unit_roundoff(6))
  have A: "1 / 255 \<le> A" using c by (simp add: A_def)
  have B: "1 / 255 \<le> B" using t by (simp add: B_def)
  have lo1: "0 \<le> 1 - U" "1 / 2 \<le> 1 - U" and hi1: "0 \<le> 1 + U" using U by simp_all
  note fa = fl64_bounds[of A, folded a_def U_def] and fb = fl64_bounds[of B, folded b_def U_def]
  have a: "A * (1 - U) \<le> a" "a \<le> A * (1 + U)"
    using fa A tiny by simp_all
  have b: "B * (1 - U) \<le> b" "b \<le> B * (1 + U)"
    using fb B tiny by simp_all
  have "1 / 255 * (1 / 2) \<le> A * (1 - U)" using A lo1 by (intro mult_mono) simp_all
  with a have a_lo: "1 / 510 \<le> a" by simp
  have "1 / 255 * (1 / 2) \<le> B * (1 - U)" using B lo1 by (intro mult_mono) simp_all
  with b have b_lo: "1 / 510 \<le> b" by simp
  have "1 / 510 * (1 / 510) \<le> a * b" using a_lo b_lo by (intro mult_mono) simp_all
  then have ab_lo: "1 / 260100 \<le> a * b" by simp
  have ab_hi: "a * b \<le> A * (1 + U) * (B * (1 + U))"
    using a b a_lo b_lo A hi1 by (intro mult_mono) (simp_all add: mult_nonneg_nonneg)
  have ab_lo2: "A * (1 - U) * (B * (1 - U)) \<le> a * b"
    using a b A B lo1 a_lo by (intro mult_mono) (simp_all add: mult_nonneg_nonneg)
  note fp = fl64_bounds[of "a * b", folded p_def U_def]
  have p: "a * b * (1 - U) \<le> p" "p \<le> a * b * (1 + U)"
    using fp ab_lo tiny by simp_all
  have "1 / 260100 * (1 / 2) \<le> a * b * (1 - U)" using ab_lo lo1 by (intro mult_mono) simp_all
  with p have p_lo: "1 / 520200 \<le> p" by simp
  then have p255: "pow2 (- 1022) \<le> p * 255" using tiny by simp
  note fq = fl64_bounds[OF p255, folded q_def U_def]
  have "q \<le> p * 255 * (1 + U)" by (rule fq(2))
  also have "\<dots> \<le> a * b * (1 + U) * 255 * (1 + U)"
    using p(2) hi1 by (simp add: mult_right_mono)
  also have "\<dots> \<le> A * (1 + U) * (B * (1 + U)) * (1 + U) * 255 * (1 + U)"
    using ab_hi hi1 by (simp add: mult_right_mono)
  also have "\<dots> = of_nat (c * t) / 255 * (1 + U) ^ 4"
    by (simp add: A_def B_def power4_eq_xxxx)
  finally show "fl64 (fl64 (fl64 (of_nat c / 255) * fl64 (of_nat t / 255)) * 255)
           \<le> of_nat (c * t) / 255 * (1 + pow2 (- 53)) ^ 4"
    by (simp add: q_def p_def a_def b_def A_def B_def U_def)
  have "of_nat (c * t) / 255 * (1 - U) ^ 4 = A * (1 - U) * (B * (1 - U)) * (1 - U) * 255 * (1 - U)"
    by (simp add: A_def B_def power4_eq_xxxx)
  also have "\<dots> \<le> a * b * (1 - U) * 255 * (1 - U)"
    using ab_lo2 lo1 by (simp add: mult_right_mono)
  also have "\<dots> \<le> p * 255 * (1 - U)"
    using p(1) lo1 by (simp add: mult_right_mono)
  also have "\<dots> \<le> q" by (rule fq(1))
  finally show "of_nat (c * t) / 255 * (1 - pow2 (- 53)) ^ 4
           \<le> fl64 (fl64 (fl64 (of_nat c / 255) * fl64 (of_nat t / 255)) * 255)"
    by (simp add: q_def p_def a_def b_def A_def B_def U_def)
qed

lemma tint_floor:
  fixes c t :: nat
  assumes c: "c \<le> 255" and t: "t \<le> 255"
  defines "q \<equiv> fl64 (fl64 (fl64 (of_nat c / 255) * fl64 (of_nat t / 255)) * 255)"
  shows "0 \<le> q" and "\<lfloor>q\<rfloor> \<le> int (c * t div 255)" and "int (c * t div 255) - 1 \<le> \<lfloor>q\<rfloor>"
    and "c * t mod 255 \<noteq> 0 \<Longrightarrow> \<lfloor>q\<rfloor> = int (c * t div 255)"
proof -
  define k where "k = c * t div 255"
  define r where "r = c * t mod 255"
  define v :: rat where "v = of_nat (c * t) / 255"
  define U where "U = pow2 (- 53)"
  have ct: "c * t = 255 * k + r" and r: "r < 255"
    by (simp_all add: k_def r_def)
  have v: "v = of_nat k + of_nat r / 255"
    unfolding v_def ct by (simp add: field_simps)
  note [simp del] = of_nat_mult
  have "c * t \<le> 255 * 255" using c t by (rule mult_le_mono)
  then have "(of_nat (c * t) :: rat) \<le> of_nat (255 * 255)" by (rule of_nat_mono)
  then have "(of_nat (c * t) :: rat) \<le> 65025" by (simp del: of_nat_mult)
  then have vle: "v \<le> 255" and v0: "0 \<le> v"
    by (simp_all add: v_def del: of_nat_mult)
  have main: "0 \<le> q \<and> q < of_nat k + 1 \<and> of_nat k - 1 < q \<and> (r \<noteq> 0 \<longrightarrow> of_nat k \<le> q)"
  proof (cases "c = 0 \<or> t = 0")
    case True
    then have "q = 0" by (auto simp: q_def fl64_0)
    moreover from True have "k = 0" "r = 0" by (auto simp: k_def r_def)
    ultimately show ?thesis by simp
  next
    case False
    then have c1: "1 \<le> c" and t1: "1 \<le> t" by auto
    note b = tint_value_bounds[OF c1 c t1 t, folded q_def v_def U_def]
    note u = unit_roundoff[folded U_def]
    have "q \<le> v * (1 + 5 * U)"
      using b(2) u(3) v0 by (meson mult_left_mono order_trans)
    also have "\<dots> = v + 5 * U * v" by (simp add: algebra_simps)
    also have "\<dots> \<le> v + 5 * U * 255"
      using vle u(1) by (simp add: mult_left_mono)
    also have "\<dots> < v + 1 / 255" using u(5) by simp
    finally have hi: "q < v + 1 / 255" .
    have "v - 1 / 255 < v - 4 * U * 255" using u(5) u(1) by simp
    also have "\<dots> \<le> v - 4 * U * v"
      using vle u(1) by (simp add: mult_left_mono)
    also have "\<dots> = v * (1 - 4 * U)" by (simp add: algebra_simps)
    also have "\<dots> \<le> q"
      using b(1) u(4) v0 by (meson mult_left_mono order_trans)
    finally have lo: "v - 1 / 255 < q" .
    have rr: "(of_nat r :: rat) \<le> 254" using r by simp
    have q0: "0 \<le> q"
    proof -
      have "0 \<le> 1 - U" using u(2) by simp
      then have "0 \<le> v * (1 - U) ^ 4" using v0 by (intro mult_nonneg_nonneg zero_le_power)
      with b(1) show ?thesis by simp
    qed
    have "q < of_nat k + 1" using hi rr unfolding v by simp
    moreover have "of_nat k - 1 < q" using lo unfolding v by simp
    moreover have "of_nat k \<le> q" if "r \<noteq> 0"
    proof -
      from that have "(1 :: rat) \<le> of_nat r" by simp
      then show ?thesis using lo unfolding v by simp
    qed
    ultimately show ?thesis using q0 by blast
  qed
  show "0 \<le> q" using main by blast
  show "\<lfloor>q\<rfloor> \<le> int (c * t div 255)"
  proof -
    from main have "q < of_int (int k + 1)" by simp
    then have "\<lfloor>q\<rfloor> < int k + 1" by (simp only: floor_less_iff)
    then show ?thesis by (simp add: k_def)
  qed
  show "int (c * t div 255) - 1 \<le> \<lfloor>q\<rfloor>"
  proof -
    from main have "of_int (int k - 1) \<le> q" by simp
    then have "int k - 1 \<le> \<lfloor>q\<rfloor>" by (simp only: le_floor_iff)
    then show ?thesis by (simp add: k_def)
  qed
  show "\<lfloor>q\<rfloor> = int (c * t div 255)" if "c * t mod 255 \<noteq> 0"
  proof -
    from that main have "of_int (int k) \<le> q" and "q < of_int (int k) + 1" by (simp_all add: r_def)
    then have "\<lfloor>q\<rfloor> = int k" by (simp add: floor_unique)
    then show ?thesis by (simp add: k_def)
  qed
qed

lemma uchar_of_float_Inr:
  "uchar_of_float x = Inr w \<Longrightarrow> int (unat w) = truncate_rat x"
proof -
  assume a: "uchar_of_float x = Inr w"
  then have r: "0 \<le> truncate_rat x \<and> truncate_rat x \<le> 255" and w: "w = word_of_int (truncate_rat x)"
    by (auto simp: uchar_of_float_def Let_def split: if_splits)
  have "uint (word_of_int (truncate_rat x) :: 8 word) = truncate_rat x"
    using r by (simp add: uint_word_of_int)
  then show ?thesis
    unfolding w by simp
qed

lemma tint_channel_value:
  "\<exists>w. tint_channel c t = Inr w
     \<and> unat w \<le> unat c * unat t div 255
     \<and> unat c * unat t div 255 \<le> unat w + 1
     \<and> (unat c * unat t mod 255 \<noteq> 0 \<longrightarrow> unat w = unat c * unat t div 255)"
proof -
  define q where "q = fl64 (fl64 (fl64 (of_nat (unat c) / 255) * fl64 (of_nat (unat t) / 255)) * 255)"
  have c: "unat c \<le> 255" and t: "unat t \<le> 255"
    using unsigned_less[of c, where 'a = nat] unsigned_less[of t, where 'a = nat] by simp_all
  note f = tint_floor[OF c t, folded q_def]
  have "unat c * unat t \<le> 255 * 255" using c t by (rule mult_le_mono)
  then have k: "unat c * unat t div 255 \<le> 255" by simp
  have f0: "0 \<le> \<lfloor>q\<rfloor>" using f(1) by simp
  have f255: "\<lfloor>q\<rfloor> \<le> 255" using f(2) k by linarith
  have tr: "truncate_rat q = \<lfloor>q\<rfloor>" using f(1) by (simp add: truncate_rat_def)
  define w :: "8 word" where "w = word_of_int \<lfloor>q\<rfloor>"
  have tq: "tint_channel c t = uchar_of_float q"
    by (simp only: tint_channel_def q_def)
  have uq: "uchar_of_float q = Inr w"
    using f0 f255 by (simp add: uchar_of_float_def tr w_def)
  have tc: "tint_channel c t = Inr w"
    by (simp only: tq uq)
  have "int (unat w) = \<lfloor>q\<rfloor>"
    using uchar_of_float_Inr[OF uq] tr by simp
  then have "unat w \<le> unat c * unat t div 255"
    and "unat c * unat t div 255 \<le> unat w + 1"
    and "unat c * unat t mod 255 \<noteq> 0 \<longrightarrow> unat w = unat c * unat t div 255"
    using f(2,3,4) by linarith+
  with tc show ?thesis by blast
qed

lemma ColorTint_total: "\<exists>ct. ColorTint c tint = Inr ct"
proof -
  obtain cr cg cb ca where
    "tint_channel (color_r c) (color_r tint) = Inr cr"
    "tint_channel (color_g c) (color_g tint) = Inr cg"
    "tint_channel (color_b c) (color_b tint) = Inr cb"
    "tint_channel (color_a c) (color_a tint) = Inr ca"
    using tint_channel_value by metis
  then show ?thesis by (simp add: ColorTint_def)
qed

section \<open>Properties of drawing\<close>

lemma array_get_Inr: "array_get xs i = Inr x \<longleftrightarrow> 0 \<le> i \<and> i < int (length xs) \<and> x = xs ! nat i"
  by (auto simp: array_get_def)

lemma set_diffuse_color_restore:
  "set_diffuse_color (set_diffuse_color mat c) (color (maps mat MATERIAL_MAP_DIFFUSE)) = mat"
  by (simp add: set_diffuse_color_def)

lemma iterate_invariant:
  assumes "iterate f xs s = Inr s'" and "P s"
    and "\<And>x u u'. x \<in> set xs \<Longrightarrow> f x u = Inr u' \<Longrightarrow> P u \<Longrightarrow> P u'"
  shows "P s'"
  using assms
proof (induction xs arbitrary: s)
  case Nil
  then show ?case by simp
next
  case (Cons x xs)
  from Cons.prems(1) obtain u where u: "f x s = Inr u" and rest: "iterate f xs u = Inr s'"
    by (auto split: sum.splits)
  have "P u" using Cons.prems(3)[OF _ u Cons.prems(2)] by simp
  then show ?case using Cons.IH[OF rest] Cons.prems(3) by auto
qed

lemma draw_tinted_mesh_effect:
  assumes "draw_tinted_mesh model j T tint st = Inr st'"
  shows "heap_materials st' = heap_materials st"
    and "\<exists>mm mat ct mesh. array_get (meshMaterial model) j = Inr mm
           \<and> array_get (heap_materials st) mm = Inr mat
           \<and> ColorTint (color (maps mat MATERIAL_MAP_DIFFUSE)) tint = Inr ct
           \<and> array_get (meshes model) j = Inr mesh
           \<and> calls st' = calls st @ [(mesh, set_diffuse_color mat ct, T)]"
  using assms
  by (auto simp: draw_tinted_mesh_def Let_def array_get_Inr set_diffuse_color_restore
      split: sum.splits)

lemma DrawGLTFNode_materials:
  "DrawGLTFNode fuel rl model node_id T tint st = Inr st' \<Longrightarrow> heap_materials st' = heap_materials st"
proof (induction fuel arbitrary: node_id T st st')
  case 0
  then show ?case by simp
next
  case (Suc fuel)
  show ?case
  proof (cases "node_id \<ge> 0 \<and> node_id < nodeCount model")
    case False
    with Suc.prems show ?thesis by auto
  next
    case True
    with Suc.prems obtain node where node: "array_get (nodes model) node_id = Inr node"
      by (auto split: sum.splits)
    let ?T = "MatrixMultiply rl (transformMatrix node) T"
    show ?thesis
    proof (cases "childrenCount node > 0")
      case c: True
      with Suc.prems True node have it: "iterate (\<lambda>i s. case array_get (children node) i of Inl e \<Rightarrow> Inl e | Inr child \<Rightarrow>
                            DrawGLTFNode fuel rl model child ?T tint s)
            [0 .. childrenCount node - 1] st = Inr st'"
        by (simp add: Let_def)
      show ?thesis
        by (rule iterate_invariant[OF it, where P = "\<lambda>s. heap_materials s = heap_materials st"])
           (auto split: sum.splits dest: Suc.IH)
    next
      case c: False
      with Suc.prems True node have it: "iterate (\<lambda>j s. draw_tinted_mesh model j ?T tint s)
            [meshStart node .. meshEnd node - 1] st = Inr st'"
        by (simp add: Let_def)
      show ?thesis
        by (rule iterate_invariant[OF it, where P = "\<lambda>s. heap_materials s = heap_materials st"])
           (auto dest: draw_tinted_mesh_effect(1))
    qed
  qed
qed

lemma DrawGLTFScene_materials:
  assumes "DrawGLTFScene fuel rl model scene_id T tint st = Inr st'"
  shows "heap_materials st' = heap_materials st"
proof (cases "scene_id \<ge> 0 \<and> scene_id < sceneCount model")
  case False
  with assms show ?thesis by (auto simp: DrawGLTFScene_def)
next
  case True
  with assms obtain sc where sc: "array_get (scenes model) scene_id = Inr sc"
    by (auto simp: DrawGLTFScene_def split: sum.splits)
  with assms True have it: "iterate (\<lambda>i s. case array_get (scene_nodes sc) i of Inl e \<Rightarrow> Inl e | Inr node_id \<Rightarrow>
                          DrawGLTFNode fuel rl model node_id T tint s)
          [0 .. scene_nodeCount sc - 1] st = Inr st'"
    by (simp add: DrawGLTFScene_def)
  show ?thesis
    by (rule iterate_invariant[OF it, where P = "\<lambda>s. heap_materials s = heap_materials st"])
       (auto split: sum.splits dest: DrawGLTFNode_materials)
qed

lemma DrawGLTFModelEx_materials:
  assumes "DrawGLTFModelEx fuel rl model position axis angle sc tint st = Inr st'"
  shows "heap_materials st' = heap_materials st"
proof -
  define matTransform where "matTransform = MatrixMultiply rl (MatrixMultiply rl (MatrixScale rl (v3_x sc) (v3_y sc) (v3_z sc))
      (MatrixRotate rl axis (fl32 (angle * DEG2RAD rl)))) (MatrixTranslate rl (v3_x position) (v3_y position) (v3_z position))"
  define m where "m = model\<lparr> model_transform := MatrixMultiply rl (model_transform model) matTransform \<rparr>"
  from assms have r: "(case has_scene_to_draw m of Inl e \<Rightarrow> Inl e
         | Inr True \<Rightarrow> DrawGLTFScene fuel rl m (scene m) (model_transform m) tint st
         | Inr False \<Rightarrow>
             iterate (\<lambda>i s. draw_tinted_mesh m i (model_transform m) tint s)
               [0 .. meshCount m - 1] st) = Inr st'"
    unfolding DrawGLTFModelEx_def Let_def m_def matTransform_def by simp
  show ?thesis
  proof (cases "has_scene_to_draw m")
    case (Inl e)
    with r show ?thesis by simp
  next
    case (Inr b)
    show ?thesis
    proof (cases b)
      case True
      with r Inr show ?thesis by (auto dest: DrawGLTFScene_materials)
    next
      case False
      with r Inr have it: "iterate (\<lambda>i s. draw_tinted_mesh m i (model_transform m) tint s)
               [0 .. meshCount m - 1] st = Inr st'" by simp
      show ?thesis
        by (rule iterate_invariant[OF it, where P = "\<lambda>s. heap_materials s = heap_materials st"])
           (auto dest: draw_tinted_mesh_effect(1))
    qed
  qed
qed

lemma tint_channel_examples:
  "tint_channel 255 128 = Inr 128" "tint_channel 0 128 = Inr 0" "tint_channel 255 255 = Inr 255"
  "tint_channel 17 195 = Inr 12"
  by code_simp+

lemma ColorTint_RED_GRAY: "ColorTint RED GRAY = Inr \<lparr> color_r = 128, color_g = 0, color_b = 0, color_a = 255 \<rparr>"
  by (simp add: ColorTint_def RED_def GRAY_def WHITE_def tint_channel_examples)

lemma ColorTint_WHITE_GRAY: "ColorTint WHITE GRAY = Inr GRAY"
  by (simp add: ColorTint_def RED_def GRAY_def WHITE_def tint_channel_examples)


lemma iterate_append:
  "iterate f (xs @ ys) s = (case iterate f xs s of Inl e \<Rightarrow> Inl e | Inr s' \<Rightarrow> iterate f ys s')"
  by (induction xs arbitrary: s) (auto split: sum.splits)

lemma iterate_indexed:
  "iterate (\<lambda>i s. case array_get xs i of Inl e \<Rightarrow> Inl e | Inr x \<Rightarrow> f x s) [0 .. int (length xs) - 1] s
     = iterate f xs s"
proof (induction xs arbitrary: s rule: rev_induct)
  case Nil
  then show ?case by simp
next
  case (snoc x xs)
  have up: "[0 .. int (length (xs @ [x])) - 1] = [0 .. int (length xs) - 1] @ [int (length xs)]"
    using upto_rec2[of 0 "int (length xs)"] by simp
  have same: "iterate (\<lambda>i s. case array_get (xs @ [x]) i of Inl e \<Rightarrow> Inl e | Inr x \<Rightarrow> f x s) [0 .. int (length xs) - 1] s
            = iterate (\<lambda>i s. case array_get xs i of Inl e \<Rightarrow> Inl e | Inr x \<Rightarrow> f x s) [0 .. int (length xs) - 1] s" for s
    by (rule iterate_cong) (auto simp: array_get_def nth_append)
  show ?case
    unfolding up iterate_append same snoc.IH
    by (auto simp: array_get_def split: sum.splits)
qed

lemma iterate_draw_calls:
  "iterate (\<lambda>j s. draw_tinted_mesh model j T tint s) js st = Inr st'
   \<Longrightarrow> map mesh_and_transform (calls st')
       = map mesh_and_transform (calls st) @ map (\<lambda>j. (meshes model ! nat j, T)) js"
proof (induction js arbitrary: st)
  case Nil
  then show ?case by simp
next
  case (Cons j js)
  from Cons.prems obtain u where u: "draw_tinted_mesh model j T tint st = Inr u"
    and rest: "iterate (\<lambda>j s. draw_tinted_mesh model j T tint s) js u = Inr st'"
    by (auto split: sum.splits)
  from draw_tinted_mesh_effect(2)[OF u]
  have "map mesh_and_transform (calls u) = map mesh_and_transform (calls st) @ [(meshes model ! nat j, T)]"
    by (auto simp: mesh_and_transform_def array_get_Inr)
  with Cons.IH[OF rest] show ?case by simp
qed

text \<open>
  Claim C10. \<^verbatim>\<open>DrawGLTFNode\<close> with \<open>node_id < 0\<close> or \<open>node_id \<ge> nodeCount\<close> and
  \<^verbatim>\<open>DrawGLTFScene\<close> with \<open>scene_id < 0\<close> or \<open>scene_id \<ge> sceneCount\<close> return at once: no
  \<^verbatim>\<open>DrawMesh\<close> call is added and the state is the one before the call. This holds whatever
  the arrays of the model are, also when they are empty and any read of them would be an
  error: no element is read.
\<close>

theorem out_of_range_draw_is_noop:
  "(node_id < 0 \<or> nodeCount model \<le> node_id
      \<longrightarrow> DrawGLTFNode (Suc fuel) rl model node_id T tint st = Inr st)
 \<and> (scene_id < 0 \<or> sceneCount model \<le> scene_id
      \<longrightarrow> DrawGLTFScene fuel rl model scene_id T tint st = Inr st)"
  by (auto simp: DrawGLTFScene_def)

text \<open>
  Claim C6. After any of the draw entry points returns (the node path, the scene path, and
  the whole-model draw with its flat path), the material array is what it was before the
  call: the tinted colour is stored for the single \<^verbatim>\<open>DrawMesh\<close> call and the saved colour
  is stored back after it.
\<close>

theorem draw_restores_materials:
  "(DrawGLTFNode fuel rl model node_id T tint st = Inr st' \<longrightarrow> heap_materials st' = heap_materials st)
 \<and> (DrawGLTFScene fuel rl model scene_id T tint st = Inr st' \<longrightarrow> heap_materials st' = heap_materials st)
 \<and> (DrawGLTFModelEx fuel rl model position axis angle scale_v tint st = Inr st'
      \<longrightarrow> heap_materials st' = heap_materials st)
 \<and> (DrawGLTFModel fuel rl model position scale_f tint st = Inr st'
      \<longrightarrow> heap_materials st' = heap_materials st)"
  using DrawGLTFNode_materials DrawGLTFScene_materials DrawGLTFModelEx_materials
  by (fastforce simp: DrawGLTFModel_def Let_def)

lemmas ex_simps = ex_model_def ex_state_def ex_node_def ex_raylib_def array_get_def
      draw_tinted_mesh_def ColorTint_RED_GRAY ColorTint_WHITE_GRAY ex_material_def ex_map_def
      set_diffuse_color_def MATERIAL_MAP_DIFFUSE_def MATERIAL_MAP_ALBEDO_def upto_rec1 Let_def

lemma ex_raylib_sel:
  "MatrixMultiply ex_raylib = M_Multiply" "MatrixIdentity ex_raylib = M_Identity"
  "MatrixTranslate ex_raylib = M_Translate" "MatrixScale ex_raylib = M_Scale"
  "MatrixRotate ex_raylib = M_Rotate" "QuaternionToMatrix ex_raylib = M_Quaternion"
  "DEG2RAD ex_raylib = 1 / 64" "LoadMaterialDefault ex_raylib = ex_material WHITE"
  "SUPPORT_MESH_GENERATION ex_raylib = True"
  by (simp_all add: ex_raylib_def)

lemma DrawGLTFNode_children:
  assumes "0 \<le> node_id" and "node_id < nodeCount model"
    and "array_get (nodes model) node_id = Inr N"
    and "0 < childrenCount N" and "childrenCount N = int (length (children N))"
  shows "DrawGLTFNode (Suc fuel) rl model node_id T tint st
              = iterate (\<lambda>child s. DrawGLTFNode fuel rl model child
                                      (MatrixMultiply rl (transformMatrix N) T) tint s)
                  (children N) st"
proof -
  have "DrawGLTFNode (Suc fuel) rl model node_id T tint st
      = iterate (\<lambda>i s. case array_get (children N) i of Inl e \<Rightarrow> Inl e | Inr child \<Rightarrow>
                   DrawGLTFNode fuel rl model child (MatrixMultiply rl (transformMatrix N) T) tint s)
          [0 .. childrenCount N - 1] st"
    using assms(1-4) by (simp add: Let_def)
  then show ?thesis
    by (simp only: assms(5) iterate_indexed)
qed

lemma ex_draw_leaf2:
  "DrawGLTFNode (Suc 0) ex_raylib ex_model 2 T GRAY \<lparr> heap_materials = materials ex_model, calls = cs \<rparr> =
     Inr \<lparr> heap_materials = materials ex_model,
           calls = cs @ [(ex_mesh 2, ex_material GRAY, M_Multiply (M_Param 2) T)] \<rparr>"
  by (simp add: ex_simps)

lemma ex_draw_leaf1:
  "DrawGLTFNode (Suc 0) ex_raylib ex_model 1 T GRAY \<lparr> heap_materials = materials ex_model, calls = cs \<rparr> =
     Inr \<lparr> heap_materials = materials ex_model,
           calls = cs @ [(ex_mesh 1, ex_material \<lparr> color_r = 128, color_g = 0, color_b = 0, color_a = 255 \<rparr>,
                    M_Multiply (M_Param 1) T)] \<rparr>"
  by (simp add: ex_simps)

lemma ex_draw_root:
  "DrawGLTFNode (Suc (Suc 0)) ex_raylib ex_model 0 T GRAY \<lparr> heap_materials = materials ex_model, calls = [] \<rparr> =
     Inr \<lparr> heap_materials = materials ex_model,
           calls = [(ex_mesh 1, ex_material \<lparr> color_r = 128, color_g = 0, color_b = 0, color_a = 255 \<rparr>,
                    M_Multiply (M_Param 1) (M_Multiply (M_Param 0) T)),
                    (ex_mesh 2, ex_material GRAY, M_Multiply (M_Param 2) (M_Multiply (M_Param 0) T))] \<rparr>"
proof -
  have n0: "array_get (nodes ex_model) 0 = Inr (ex_node [1, 2] 0 2 0)"
    by (simp add: ex_model_def array_get_def)
  have "DrawGLTFNode (Suc (Suc 0)) ex_raylib ex_model 0 T GRAY \<lparr> heap_materials = materials ex_model, calls = [] \<rparr>
    = iterate (\<lambda>child s. DrawGLTFNode (Suc 0) ex_raylib ex_model child
                                      (MatrixMultiply ex_raylib (transformMatrix (ex_node [1, 2] 0 2 0)) T) GRAY s)
                  (children (ex_node [1, 2] 0 2 0)) \<lparr> heap_materials = materials ex_model, calls = [] \<rparr>"
    by (rule DrawGLTFNode_children[OF _ _ n0]) (simp_all add: ex_model_def ex_node_def)
  then show ?thesis
    by (simp del: DrawGLTFNode.simps add: ex_draw_leaf1 ex_draw_leaf2 ex_node_def ex_raylib_sel)
qed

lemma draw_tinted_mesh_total:
  assumes "0 \<le> j" and "j < int (length (meshes model))" and "j < int (length (meshMaterial model))"
    and "0 \<le> meshMaterial model ! nat j"
    and "meshMaterial model ! nat j < int (length (heap_materials st))"
  shows "\<exists>st'. draw_tinted_mesh model j T tint st = Inr st'"
proof -
  obtain ct where "ColorTint (color (maps (heap_materials st ! nat (meshMaterial model ! nat j))
      MATERIAL_MAP_DIFFUSE)) tint = Inr ct"
    using ColorTint_total by blast
  then show ?thesis
    using assms by (simp add: draw_tinted_mesh_def array_get_def Let_def)
qed

lemma iterate_total:
  assumes "P s"
    and "\<And>x u. x \<in> set xs \<Longrightarrow> P u \<Longrightarrow> \<exists>u'. f x u = Inr u' \<and> P u'"
  shows "\<exists>s'. iterate f xs s = Inr s' \<and> P s'"
  using assms
proof (induction xs arbitrary: s)
  case Nil
  then show ?case by simp
next
  case (Cons x xs)
  from Cons.prems(2)[of x s] Cons.prems(1) obtain u where u: "f x s = Inr u" "P u" by auto
  from Cons.IH[OF u(2)] Cons.prems(2) obtain s' where "iterate f xs u = Inr s'" "P s'"
    by (metis list.set_intros(2))
  with u show ?case by simp
qed

lemma draw_meshes_total:
  fixes model :: "'m GLTFModel" and st :: "'m draw_state"
  assumes "\<forall>j \<in> set js. mesh_drawable model st j"
  shows "\<exists>st'. iterate (\<lambda>j s. draw_tinted_mesh model j T tint s) js st = Inr st'"
proof -
  have "\<exists>s'. iterate (\<lambda>j s. draw_tinted_mesh model j T tint s) js st = Inr s'
          \<and> heap_materials s' = heap_materials st"
  proof (rule iterate_total)
    show "heap_materials st = heap_materials st" by simp
  next
    fix j and u :: "'m draw_state"
    assume j: "j \<in> set js" and u: "heap_materials u = heap_materials st"
    from assms j have "mesh_drawable model u j"
      by (simp add: mesh_drawable_def u)
    then obtain u' where u': "draw_tinted_mesh model j T tint u = Inr u'"
      using draw_tinted_mesh_total[of j model u T tint] by (auto simp: mesh_drawable_def)
    from draw_tinted_mesh_effect(1)[OF u'] u
    show "\<exists>u'. draw_tinted_mesh model j T tint u = Inr u' \<and> heap_materials u' = heap_materials st"
      using u' by simp
  qed
  then show ?thesis by blast
qed

lemma DrawGLTFNode_leaf_total:
  assumes "0 \<le> node_id" and "node_id < nodeCount model"
    and "array_get (nodes model) node_id = Inr N"
    and "childrenCount N \<le> 0"
    and "\<forall>j \<in> set [meshStart N .. meshEnd N - 1]. mesh_drawable model st j"
  shows "\<exists>st'. DrawGLTFNode (Suc fuel) rl model node_id T tint st = Inr st'"
proof -
  from draw_meshes_total[OF assms(5)] obtain st' where
    "iterate (\<lambda>j s. draw_tinted_mesh model j (MatrixMultiply rl (transformMatrix N) T) tint s)
       [meshStart N .. meshEnd N - 1] st = Inr st'"
    by blast
  moreover have "\<not> 0 < childrenCount N" using assms(4) by simp
  ultimately show ?thesis
    using assms(1-3) by (simp add: Let_def)
qed

text \<open>
  Claim C1. At an in-range node \<open>N\<close> with inherited transform \<open>T\<close>, \<^verbatim>\<open>DrawGLTFNode\<close> computes
  \<open>T' = MatrixMultiply N.transformMatrix T\<close>. If \<open>N\<close> has children (and, as in a loaded model,
  \<open>childrenCount\<close> is the length of the child array), the call is exactly the calls of
  \<^verbatim>\<open>DrawGLTFNode\<close> on the children in order, each with \<open>T'\<close>, and nothing else: no mesh of
  \<open>N\<close> itself is drawn at this step. If \<open>N\<close> has no children, a call that returns has issued
  one \<^verbatim>\<open>DrawMesh\<close> for each index of \<open>[meshStart, meshEnd)\<close> in order, each with \<open>T'\<close>, and
  the call does return when these meshes and their materials exist.
\<close>

theorem DrawGLTFNode_traversal:
  assumes "0 \<le> node_id" and "node_id < nodeCount model"
    and "array_get (nodes model) node_id = Inr N"
  shows "(0 < childrenCount N \<and> childrenCount N = int (length (children N)) \<longrightarrow>
            DrawGLTFNode (Suc fuel) rl model node_id T tint st
              = iterate (\<lambda>child s. DrawGLTFNode fuel rl model child
                                      (MatrixMultiply rl (transformMatrix N) T) tint s)
                  (children N) st)
       \<and> (childrenCount N \<le> 0 \<and> DrawGLTFNode (Suc fuel) rl model node_id T tint st = Inr st' \<longrightarrow>
            map mesh_and_transform (calls st')
              = map mesh_and_transform (calls st)
                @ map (\<lambda>j. (meshes model ! nat j, MatrixMultiply rl (transformMatrix N) T))
                    [meshStart N .. meshEnd N - 1])
       \<and> (childrenCount N \<le> 0 \<and> (\<forall>j \<in> set [meshStart N .. meshEnd N - 1]. mesh_drawable model st j)
            \<longrightarrow> (\<exists>drawn. DrawGLTFNode (Suc fuel) rl model node_id T tint st = Inr drawn))"
proof (intro conjI impI)
  assume c: "0 < childrenCount N \<and> childrenCount N = int (length (children N))"
  then show "DrawGLTFNode (Suc fuel) rl model node_id T tint st
              = iterate (\<lambda>child s. DrawGLTFNode fuel rl model child
                                      (MatrixMultiply rl (transformMatrix N) T) tint s)
                  (children N) st"
    using DrawGLTFNode_children[OF assms] by blast
next
  assume l: "childrenCount N \<le> 0 \<and> DrawGLTFNode (Suc fuel) rl model node_id T tint st = Inr st'"
  then have le: "\<not> 0 < childrenCount N"
    and r: "DrawGLTFNode (Suc fuel) rl model node_id T tint st = Inr st'"
    by auto
  have "iterate (\<lambda>j s. draw_tinted_mesh model j (MatrixMultiply rl (transformMatrix N) T) tint s)
      [meshStart N .. meshEnd N - 1] st = Inr st'"
    using assms le r by (simp add: Let_def)
  then show "map mesh_and_transform (calls st')
              = map mesh_and_transform (calls st)
                @ map (\<lambda>j. (meshes model ! nat j, MatrixMultiply rl (transformMatrix N) T))
                    [meshStart N .. meshEnd N - 1]"
    by (rule iterate_draw_calls)
next
  assume "childrenCount N \<le> 0 \<and> (\<forall>j \<in> set [meshStart N .. meshEnd N - 1]. mesh_drawable model st j)"
  then show "\<exists>drawn. DrawGLTFNode (Suc fuel) rl model node_id T tint st = Inr drawn"
    using DrawGLTFNode_leaf_total[OF assms] by blast
qed

theorem DrawGLTFNode_traversal_witness:
  "DrawGLTFNode (Suc (Suc 0)) ex_raylib ex_model 0 (M_Param 7) GRAY ex_state
     = iterate (\<lambda>child s. DrawGLTFNode (Suc 0) ex_raylib ex_model child
                             (M_Multiply (M_Param 0) (M_Param 7)) GRAY s) [1, 2] ex_state
 \<and> DrawGLTFNode (Suc 0) ex_raylib ex_model 2 (M_Param 7) GRAY ex_state
     = Inr \<lparr> heap_materials = materials ex_model,
             calls = [(ex_mesh 2, ex_material GRAY, M_Multiply (M_Param 2) (M_Param 7))] \<rparr>
 \<and> map mesh_and_transform [(ex_mesh 2, ex_material GRAY, M_Multiply (M_Param 2) (M_Param 7))]
     = map (\<lambda>j. (meshes ex_model ! nat j, M_Multiply (M_Param 2) (M_Param 7))) [1 .. 2 - 1]
 \<and> (\<exists>drawn. DrawGLTFNode (Suc 0) ex_raylib ex_model 1 (M_Param 7) GRAY ex_state = Inr drawn)"
proof -
  have n0: "array_get (nodes ex_model) 0 = Inr (ex_node [1, 2] 0 2 0)"
    and n1: "array_get (nodes ex_model) 1 = Inr (ex_node [] 0 1 1)"
    and n2: "array_get (nodes ex_model) 2 = Inr (ex_node [] 1 2 2)"
    by (simp_all add: ex_model_def array_get_def)
  have r0: "(0::int) \<le> 0" "0 < nodeCount ex_model" and r1: "(0::int) \<le> 1" "1 < nodeCount ex_model"
    and r2: "(0::int) \<le> 2" "2 < nodeCount ex_model"
    by (simp_all add: ex_model_def)
  have leaf: "DrawGLTFNode (Suc 0) ex_raylib ex_model 2 (M_Param 7) GRAY ex_state
     = Inr \<lparr> heap_materials = materials ex_model,
             calls = [(ex_mesh 2, ex_material GRAY, M_Multiply (M_Param 2) (M_Param 7))] \<rparr>"
    using ex_draw_leaf2[of "M_Param 7" "[]"] by (simp del: DrawGLTFNode.simps add: ex_state_def)
  note a = DrawGLTFNode_traversal[OF r0 n0,
      where fuel = "Suc 0" and rl = ex_raylib and T = "M_Param 7" and tint = GRAY and st = ex_state,
      THEN conjunct1]
  note b = DrawGLTFNode_traversal[OF r2 n2,
      where fuel = 0 and rl = ex_raylib and T = "M_Param 7" and tint = GRAY and st = ex_state
        and st' = "\<lparr> heap_materials = materials ex_model,
           calls = [(ex_mesh 2, ex_material GRAY, M_Multiply (M_Param 2) (M_Param 7))] \<rparr>",
      THEN conjunct2, THEN conjunct1]
  note c = DrawGLTFNode_traversal[OF r1 n1,
      where fuel = 0 and rl = ex_raylib and T = "M_Param 7" and tint = GRAY and st = ex_state,
      THEN conjunct2, THEN conjunct2]
  have d: "\<forall>j \<in> set [meshStart (ex_node [] 0 1 1) .. meshEnd (ex_node [] 0 1 1) - 1].
             mesh_drawable ex_model ex_state j"
    by (simp add: ex_node_def mesh_drawable_def ex_model_def ex_state_def)
  from a have A: "DrawGLTFNode (Suc (Suc 0)) ex_raylib ex_model 0 (M_Param 7) GRAY ex_state
     = iterate (\<lambda>child s. DrawGLTFNode (Suc 0) ex_raylib ex_model child
                             (M_Multiply (M_Param 0) (M_Param 7)) GRAY s) [1, 2] ex_state"
    by (simp del: DrawGLTFNode.simps add: ex_node_def ex_raylib_sel)
  from b leaf have B: "map mesh_and_transform [(ex_mesh 2, ex_material GRAY, M_Multiply (M_Param 2) (M_Param 7))]
     = map (\<lambda>j. (meshes ex_model ! nat j, M_Multiply (M_Param 2) (M_Param 7))) [1 .. 2 - 1]"
    by (simp del: DrawGLTFNode.simps add: ex_node_def ex_raylib_sel ex_state_def)
  from c d have C: "\<exists>drawn. DrawGLTFNode (Suc 0) ex_raylib ex_model 1 (M_Param 7) GRAY ex_state = Inr drawn"
    by (simp del: DrawGLTFNode.simps add: ex_node_def)
  show ?thesis
    by (intro conjI A leaf B C)
qed

theorem out_of_range_draw_is_noop_witness:
  "DrawGLTFNode 1 ex_raylib ex_model (- 1) (M_Param 7) GRAY ex_state = Inr ex_state
 \<and> DrawGLTFNode 1 ex_raylib ex_model 3 (M_Param 7) GRAY ex_state = Inr ex_state
 \<and> DrawGLTFScene 0 ex_raylib ex_model 1 (M_Param 7) GRAY ex_state = Inr ex_state
 \<and> DrawGLTFScene 0 ex_raylib ex_model (- 1) (M_Param 7) GRAY ex_state = Inr ex_state"
  using out_of_range_draw_is_noop[where node_id = "- 1" and scene_id = 1 and model = ex_model
      and fuel = 0 and rl = ex_raylib and T = "M_Param 7" and tint = GRAY and st = ex_state]
    out_of_range_draw_is_noop[where node_id = 3 and scene_id = "- 1" and model = ex_model
      and fuel = 0 and rl = ex_raylib and T = "M_Param 7" and tint = GRAY and st = ex_state]
  by (simp add: ex_model_def)

lemma fl32_0: "fl32 0 = 0"
  by (simp add: fl32_def fl_round_def)

lemma ex_draw_flat:
  "DrawGLTFModel fuel ex_raylib (ex_model\<lparr> scene := - 1 \<rparr>) ex_position 2 GRAY ex_state
     = Inr (ex_drawn ex_flat_transform ex_flat_transform)"
  by (simp add: DrawGLTFModel_def DrawGLTFModelEx_def has_scene_to_draw_def ex_raylib_sel fl32_0
      ex_position_def ex_flat_transform_def ex_drawn_def ex_simps)

lemma draw_tinted_mesh_model_transform:
  "draw_tinted_mesh (model\<lparr> model_transform := X \<rparr>) = draw_tinted_mesh model"
  by (intro ext) (simp add: draw_tinted_mesh_def Let_def cong: sum.case_cong)

lemma DrawGLTFNode_model_transform:
  "DrawGLTFNode fuel rl (model\<lparr> model_transform := X \<rparr>) = DrawGLTFNode fuel rl model"
proof (induction fuel)
  case 0
  show ?case by (intro ext) simp
next
  case (Suc fuel)
  show ?case
    by (intro ext)
      (simp add: Suc.IH draw_tinted_mesh_model_transform Let_def cong: sum.case_cong if_cong)
qed

lemma DrawGLTFScene_model_transform:
  "DrawGLTFScene fuel rl (model\<lparr> model_transform := X \<rparr>) = DrawGLTFScene fuel rl model"
  by (intro ext)
    (simp add: DrawGLTFScene_def DrawGLTFNode_model_transform cong: sum.case_cong if_cong)

lemma ex_draw_scene:
  "DrawGLTFModel (Suc (Suc 0)) ex_raylib ex_model ex_position 2 GRAY ex_state
     = Inr (ex_drawn (M_Multiply (M_Param 1) (M_Multiply (M_Param 0) ex_flat_transform))
                     (M_Multiply (M_Param 2) (M_Multiply (M_Param 0) ex_flat_transform)))"
proof -
  have h: "has_scene_to_draw (ex_model\<lparr> model_transform := X \<rparr>) = Inr True" for X
    by (simp add: has_scene_to_draw_def ex_model_def array_get_def)
  have s: "DrawGLTFScene (Suc (Suc 0)) ex_raylib ex_model 0 T GRAY ex_state
      = DrawGLTFNode (Suc (Suc 0)) ex_raylib ex_model 0 T GRAY ex_state" for T
    by (simp del: DrawGLTFNode.simps add: DrawGLTFScene_def array_get_def
        ex_model_def[THEN arg_cong, of sceneCount] ex_model_def[THEN arg_cong, of scenes] split: sum.splits)
  have sc: "scene (ex_model\<lparr> model_transform := X \<rparr>) = 0" for X
    by (simp add: ex_model_def)
  show ?thesis
    unfolding DrawGLTFModel_def DrawGLTFModelEx_def Let_def h sc DrawGLTFScene_model_transform s
    by (simp del: DrawGLTFNode.simps add: ex_draw_root ex_state_def ex_raylib_sel fl32_0 ex_position_def
        ex_flat_transform_def ex_drawn_def ex_model_def[THEN arg_cong, of model_transform])
qed

theorem draw_restores_materials_witness:
  "DrawGLTFModel (Suc (Suc 0)) ex_raylib ex_model ex_position 2 GRAY ex_state
     = Inr (ex_drawn (M_Multiply (M_Param 1) (M_Multiply (M_Param 0) ex_flat_transform))
                     (M_Multiply (M_Param 2) (M_Multiply (M_Param 0) ex_flat_transform)))
 \<and> DrawGLTFModel 0 ex_raylib (ex_model\<lparr> scene := - 1 \<rparr>) ex_position 2 GRAY ex_state
     = Inr (ex_drawn ex_flat_transform ex_flat_transform)
 \<and> heap_materials (ex_drawn ex_flat_transform ex_flat_transform) = heap_materials ex_state
 \<and> heap_materials ex_state = [ex_material WHITE, ex_material RED]
 \<and> ex_material \<lparr> color_r = 128, color_g = 0, color_b = 0, color_a = 255 \<rparr> \<noteq> ex_material RED"
proof -
  have ne: "ex_material \<lparr> color_r = 128, color_g = 0, color_b = 0, color_a = 255 \<rparr> \<noteq> ex_material RED"
    by (simp add: ex_material_def ex_map_def RED_def fun_eq_iff)
  have st: "heap_materials ex_state = [ex_material WHITE, ex_material RED]"
    by (simp add: ex_state_def ex_model_def)
  from draw_restores_materials[where fuel = 0 and rl = ex_raylib and model = "ex_model\<lparr> scene := - 1 \<rparr>"
      and position = ex_position and scale_f = 2 and tint = GRAY and st = ex_state
      and st' = "ex_drawn ex_flat_transform ex_flat_transform"]
  have "heap_materials (ex_drawn ex_flat_transform ex_flat_transform) = heap_materials ex_state"
    using ex_draw_flat by blast
  then show ?thesis
    using ex_draw_scene ex_draw_flat ne st by simp
qed

lemma ColorTint_channels:
  "ColorTint c tint = Inr ct \<Longrightarrow>
     tint_channel (color_r c) (color_r tint) = Inr (color_r ct)
   \<and> tint_channel (color_g c) (color_g tint) = Inr (color_g ct)
   \<and> tint_channel (color_b c) (color_b tint) = Inr (color_b ct)
   \<and> tint_channel (color_a c) (color_a tint) = Inr (color_a ct)"
  by (auto simp: ColorTint_def split: sum.splits)

text \<open>
  Claim C5, as amended. The material passed to \<^verbatim>\<open>DrawMesh\<close> for a mesh is the mesh's
  material with its diffuse colour replaced by the tinted colour. The tinted colour always exists and is
  computed channel by channel as \<open>(c / 255) * (t / 255) * 255\<close> in double precision, cut to
  its integral part: it is \<open>c * t div 255\<close> when 255 does not divide \<open>c * t\<close>, and
  \<open>c * t div 255\<close> or one less when it does. Base colour (255,0,0,255) with tint
  (128,128,128,255) gives (128,0,0,255).
\<close>

theorem tinted_draw_color:
  "(draw_tinted_mesh model j T tint st = Inr st' \<longrightarrow>
      (\<exists>mm mat ct mesh. array_get (meshMaterial model) j = Inr mm
         \<and> array_get (heap_materials st) mm = Inr mat
         \<and> ColorTint (color (maps mat MATERIAL_MAP_DIFFUSE)) tint = Inr ct
         \<and> array_get (meshes model) j = Inr mesh
         \<and> calls st' = calls st @ [(mesh, set_diffuse_color mat ct, T)]
         \<and> color (maps (set_diffuse_color mat ct) MATERIAL_MAP_DIFFUSE) = ct))
 \<and> (\<exists>ct. ColorTint c tint = Inr ct
     \<and> tint_channel (color_r c) (color_r tint) = Inr (color_r ct)
     \<and> tint_channel (color_g c) (color_g tint) = Inr (color_g ct)
     \<and> tint_channel (color_b c) (color_b tint) = Inr (color_b ct)
     \<and> tint_channel (color_a c) (color_a tint) = Inr (color_a ct))
 \<and> (\<exists>w. tint_channel x y = Inr w
     \<and> int (unat w) = truncate_rat
         (fl64 (fl64 (fl64 (of_nat (unat x) / 255) * fl64 (of_nat (unat y) / 255)) * 255))
     \<and> unat w \<le> unat x * unat y div 255
     \<and> unat x * unat y div 255 \<le> unat w + 1
     \<and> (unat x * unat y mod 255 \<noteq> 0 \<longrightarrow> unat w = unat x * unat y div 255))
 \<and> ColorTint \<lparr> color_r = 255, color_g = 0, color_b = 0, color_a = 255 \<rparr>
              \<lparr> color_r = 128, color_g = 128, color_b = 128, color_a = 255 \<rparr>
      = Inr \<lparr> color_r = 128, color_g = 0, color_b = 0, color_a = 255 \<rparr>"
proof (intro conjI impI)
  assume "draw_tinted_mesh model j T tint st = Inr st'"
  from draw_tinted_mesh_effect(2)[OF this]
  show "\<exists>mm mat ct mesh. array_get (meshMaterial model) j = Inr mm
         \<and> array_get (heap_materials st) mm = Inr mat
         \<and> ColorTint (color (maps mat MATERIAL_MAP_DIFFUSE)) tint = Inr ct
         \<and> array_get (meshes model) j = Inr mesh
         \<and> calls st' = calls st @ [(mesh, set_diffuse_color mat ct, T)]
         \<and> color (maps (set_diffuse_color mat ct) MATERIAL_MAP_DIFFUSE) = ct"
    by (auto simp: set_diffuse_color_def)
next
  from ColorTint_total obtain ct where ct: "ColorTint c tint = Inr ct" by blast
  from ColorTint_channels[OF ct] ct
  show "\<exists>ct. ColorTint c tint = Inr ct
     \<and> tint_channel (color_r c) (color_r tint) = Inr (color_r ct)
     \<and> tint_channel (color_g c) (color_g tint) = Inr (color_g ct)
     \<and> tint_channel (color_b c) (color_b tint) = Inr (color_b ct)
     \<and> tint_channel (color_a c) (color_a tint) = Inr (color_a ct)"
    by blast
next
  from tint_channel_value[of x y] obtain w where w: "tint_channel x y = Inr w"
    "unat w \<le> unat x * unat y div 255" "unat x * unat y div 255 \<le> unat w + 1"
    "unat x * unat y mod 255 \<noteq> 0 \<longrightarrow> unat w = unat x * unat y div 255"
    by blast
  from w(1) have "int (unat w) = truncate_rat
         (fl64 (fl64 (fl64 (of_nat (unat x) / 255) * fl64 (of_nat (unat y) / 255)) * 255))"
    unfolding tint_channel_def by (rule uchar_of_float_Inr)
  with w show "\<exists>w. tint_channel x y = Inr w
     \<and> int (unat w) = truncate_rat
         (fl64 (fl64 (fl64 (of_nat (unat x) / 255) * fl64 (of_nat (unat y) / 255)) * 255))
     \<and> unat w \<le> unat x * unat y div 255
     \<and> unat x * unat y div 255 \<le> unat w + 1
     \<and> (unat x * unat y mod 255 \<noteq> 0 \<longrightarrow> unat w = unat x * unat y div 255)"
    by blast
next
  show "ColorTint \<lparr> color_r = 255, color_g = 0, color_b = 0, color_a = 255 \<rparr>
              \<lparr> color_r = 128, color_g = 128, color_b = 128, color_a = 255 \<rparr>
      = Inr \<lparr> color_r = 128, color_g = 0, color_b = 0, color_a = 255 \<rparr>"
    using ColorTint_RED_GRAY by (simp add: RED_def GRAY_def)
qed

theorem tinted_draw_color_witness:
  "draw_tinted_mesh ex_model 0 (M_Param 7) GRAY ex_state
     = Inr \<lparr> heap_materials = materials ex_model,
             calls = [(ex_mesh 1, ex_material \<lparr> color_r = 128, color_g = 0, color_b = 0, color_a = 255 \<rparr>,
                       M_Param 7)] \<rparr>
 \<and> (\<exists>mat ct. array_get (heap_materials ex_state) 1 = Inr mat
       \<and> ColorTint (color (maps mat MATERIAL_MAP_DIFFUSE)) GRAY = Inr ct
       \<and> [(ex_mesh 1, ex_material \<lparr> color_r = 128, color_g = 0, color_b = 0, color_a = 255 \<rparr>, M_Param 7)]
           = [(ex_mesh 1, set_diffuse_color mat ct, M_Param 7)])
 \<and> tint_channel 17 195 = Inr 12
 \<and> (17 :: nat) * 195 div 255 = 13 \<and> (17 :: nat) * 195 mod 255 = 0
 \<and> tint_channel 200 200 = Inr 156
 \<and> (200 :: nat) * 200 div 255 = 156 \<and> (200 :: nat) * 200 mod 255 \<noteq> 0"
proof -
  have d: "draw_tinted_mesh ex_model 0 (M_Param 7) GRAY ex_state
     = Inr \<lparr> heap_materials = materials ex_model,
             calls = [(ex_mesh 1, ex_material \<lparr> color_r = 128, color_g = 0, color_b = 0, color_a = 255 \<rparr>,
                       M_Param 7)] \<rparr>"
    by (simp add: ex_simps)
  have t: "tint_channel 17 195 = Inr 12"
    by (rule tint_channel_examples)
  note w = tinted_draw_color[where model = ex_model and j = 0 and T = "M_Param 7" and tint = GRAY
      and st = ex_state and x = 200 and y = 200
      and st' = "\<lparr> heap_materials = materials ex_model,
             calls = [(ex_mesh 1, ex_material \<lparr> color_r = 128, color_g = 0, color_b = 0, color_a = 255 \<rparr>,
                       M_Param 7)] \<rparr>"]
  from w[THEN conjunct1, rule_format, OF d]
  have e: "\<exists>mat ct. array_get (heap_materials ex_state) 1 = Inr mat
       \<and> ColorTint (color (maps mat MATERIAL_MAP_DIFFUSE)) GRAY = Inr ct
       \<and> [(ex_mesh 1, ex_material \<lparr> color_r = 128, color_g = 0, color_b = 0, color_a = 255 \<rparr>, M_Param 7)]
           = [(ex_mesh 1, set_diffuse_color mat ct, M_Param 7)]"
    by (clarsimp simp: ex_model_def ex_state_def array_get_def)
  from w[THEN conjunct2, THEN conjunct2, THEN conjunct1]
  obtain v :: "8 word" where v: "tint_channel 200 200 = Inr v"
     "unat (200 :: 8 word) * unat (200 :: 8 word) mod 255 \<noteq> 0
        \<longrightarrow> unat v = unat (200 :: 8 word) * unat (200 :: 8 word) div 255"
    by blast
  from v(2) have "unat v = 156" by simp
  then have "word_of_nat (unat v) = (word_of_nat 156 :: 8 word)" by (rule arg_cong)
  then have "v = 156" by simp
  with v(1) have n: "tint_channel 200 200 = Inr 156" by simp
  show ?thesis
    using d e t n by simp
qed

section \<open>Properties of loading\<close>








lemma map_index_distinct:
  "MATERIAL_MAP_ALBEDO \<noteq> MATERIAL_MAP_ROUGHNESS" "MATERIAL_MAP_ALBEDO \<noteq> MATERIAL_MAP_METALNESS"
  "MATERIAL_MAP_ALBEDO \<noteq> MATERIAL_MAP_NORMAL" "MATERIAL_MAP_ALBEDO \<noteq> MATERIAL_MAP_OCCLUSION"
  "MATERIAL_MAP_ALBEDO \<noteq> MATERIAL_MAP_EMISSION"
  "MATERIAL_MAP_ROUGHNESS \<noteq> MATERIAL_MAP_METALNESS" "MATERIAL_MAP_ROUGHNESS \<noteq> MATERIAL_MAP_NORMAL"
  "MATERIAL_MAP_ROUGHNESS \<noteq> MATERIAL_MAP_OCCLUSION" "MATERIAL_MAP_ROUGHNESS \<noteq> MATERIAL_MAP_EMISSION"
  "MATERIAL_MAP_METALNESS \<noteq> MATERIAL_MAP_NORMAL" "MATERIAL_MAP_METALNESS \<noteq> MATERIAL_MAP_OCCLUSION"
  "MATERIAL_MAP_METALNESS \<noteq> MATERIAL_MAP_EMISSION"
  by (simp_all add: MATERIAL_MAP_ALBEDO_def MATERIAL_MAP_ROUGHNESS_def MATERIAL_MAP_METALNESS_def
      MATERIAL_MAP_NORMAL_def MATERIAL_MAP_OCCLUSION_def MATERIAL_MAP_EMISSION_def)

lemma set_texture_color [simp]: "color (maps (set_texture k t mat) i) = color (maps mat i)"
  by (simp add: set_texture_def split: option.splits)

lemma set_texture_value [simp]: "value (maps (set_texture k t mat) i) = value (maps mat i)"
  by (simp add: set_texture_def split: option.splits)

lemma factor_to_uchar_Inr:
  "factor_to_uchar f = Inr w \<Longrightarrow> int (unat w) = truncate_rat (fl32 (f * 255))"
  unfolding factor_to_uchar_def by (rule uchar_of_float_Inr)

lemma load_material_albedo:
  assumes "has_pbr_metallic_roughness src" and "load_material rl lt src = Inr mat"
  shows "factor_to_uchar (fst (base_color_factor (pbr_metallic_roughness src)))
           = Inr (color_r (color (maps mat MATERIAL_MAP_ALBEDO)))
       \<and> factor_to_uchar (fst (snd (base_color_factor (pbr_metallic_roughness src))))
           = Inr (color_g (color (maps mat MATERIAL_MAP_ALBEDO)))
       \<and> factor_to_uchar (fst (snd (snd (base_color_factor (pbr_metallic_roughness src)))))
           = Inr (color_b (color (maps mat MATERIAL_MAP_ALBEDO)))
       \<and> factor_to_uchar (snd (snd (snd (base_color_factor (pbr_metallic_roughness src)))))
           = Inr (color_a (color (maps mat MATERIAL_MAP_ALBEDO)))"
  using assms map_index_distinct
  by (auto simp: load_material_def Let_def split: sum.splits option.splits)

lemma load_material_factors_written:
  assumes "has_pbr_metallic_roughness src"
    and "metallic_roughness_texture (pbr_metallic_roughness src) = Some t"
    and "load_material rl lt src = Inr mat"
  shows "value (maps mat MATERIAL_MAP_ROUGHNESS) = roughness_factor (pbr_metallic_roughness src)
       \<and> value (maps mat MATERIAL_MAP_METALNESS) = metallic_factor (pbr_metallic_roughness src)"
  using assms map_index_distinct
  by (auto simp: load_material_def Let_def split: sum.splits option.splits)

lemma load_material_factors_not_read:
  assumes "metallic_roughness_texture (pbr_metallic_roughness src) = None"
  shows "load_material rl lt
           (src\<lparr> pbr_metallic_roughness :=
                   (pbr_metallic_roughness src)\<lparr> metallic_factor := m, roughness_factor := r \<rparr> \<rparr>)
         = load_material rl lt src"
  using assms by (simp add: load_material_def Let_def cong: sum.case_cong option.case_cong if_cong)

lemma load_material_factors_default:
  assumes "metallic_roughness_texture (pbr_metallic_roughness src) = None"
    and "load_material rl lt src = Inr mat"
  shows "value (maps mat MATERIAL_MAP_ROUGHNESS) = value (maps (LoadMaterialDefault rl) MATERIAL_MAP_ROUGHNESS)
       \<and> value (maps mat MATERIAL_MAP_METALNESS) = value (maps (LoadMaterialDefault rl) MATERIAL_MAP_METALNESS)"
  using assms map_index_distinct
  by (auto simp: load_material_def Let_def split: sum.splits option.splits if_splits)

lemma factor_to_uchar_examples:
  "factor_to_uchar 1 = Inr 255" "factor_to_uchar (1 / 2) = Inr 127" "factor_to_uchar 0 = Inr 0"
  by code_simp+

text \<open>
  Claim C8. For a material of the metallic-roughness workflow that is imported, every
  channel of the albedo colour is the base-colour factor times 255, in single precision,
  cut to its integral part. With a metallic-roughness texture the roughness and metalness
  map values are the roughness and metallic factors; without one they are the values of the
  default material and the import does not depend on the two factors.
\<close>

theorem metallic_roughness_factors_gated:
  assumes "has_pbr_metallic_roughness src" and "load_material rl lt src = Inr mat"
  shows "int (unat (color_r (color (maps mat MATERIAL_MAP_ALBEDO))))
           = truncate_rat (fl32 (fst (base_color_factor (pbr_metallic_roughness src)) * 255))
       \<and> int (unat (color_g (color (maps mat MATERIAL_MAP_ALBEDO))))
           = truncate_rat (fl32 (fst (snd (base_color_factor (pbr_metallic_roughness src))) * 255))
       \<and> int (unat (color_b (color (maps mat MATERIAL_MAP_ALBEDO))))
           = truncate_rat (fl32 (fst (snd (snd (base_color_factor (pbr_metallic_roughness src)))) * 255))
       \<and> int (unat (color_a (color (maps mat MATERIAL_MAP_ALBEDO))))
           = truncate_rat (fl32 (snd (snd (snd (base_color_factor (pbr_metallic_roughness src)))) * 255))
       \<and> (metallic_roughness_texture (pbr_metallic_roughness src) \<noteq> None \<longrightarrow>
            value (maps mat MATERIAL_MAP_ROUGHNESS) = roughness_factor (pbr_metallic_roughness src)
          \<and> value (maps mat MATERIAL_MAP_METALNESS) = metallic_factor (pbr_metallic_roughness src))
       \<and> (metallic_roughness_texture (pbr_metallic_roughness src) = None \<longrightarrow>
            value (maps mat MATERIAL_MAP_ROUGHNESS)
              = value (maps (LoadMaterialDefault rl) MATERIAL_MAP_ROUGHNESS)
          \<and> value (maps mat MATERIAL_MAP_METALNESS)
              = value (maps (LoadMaterialDefault rl) MATERIAL_MAP_METALNESS)
          \<and> load_material rl lt
                (src\<lparr> pbr_metallic_roughness :=
                   (pbr_metallic_roughness src)\<lparr> metallic_factor := m, roughness_factor := r \<rparr> \<rparr>)
              = Inr mat)"
proof -
  note a = load_material_albedo[OF assms]
  have albedo: "int (unat (color_r (color (maps mat MATERIAL_MAP_ALBEDO))))
           = truncate_rat (fl32 (fst (base_color_factor (pbr_metallic_roughness src)) * 255))"
    "int (unat (color_g (color (maps mat MATERIAL_MAP_ALBEDO))))
           = truncate_rat (fl32 (fst (snd (base_color_factor (pbr_metallic_roughness src))) * 255))"
    "int (unat (color_b (color (maps mat MATERIAL_MAP_ALBEDO))))
           = truncate_rat (fl32 (fst (snd (snd (base_color_factor (pbr_metallic_roughness src)))) * 255))"
    "int (unat (color_a (color (maps mat MATERIAL_MAP_ALBEDO))))
           = truncate_rat (fl32 (snd (snd (snd (base_color_factor (pbr_metallic_roughness src)))) * 255))"
    using a by (blast intro: factor_to_uchar_Inr)+
  have written: "value (maps mat MATERIAL_MAP_ROUGHNESS) = roughness_factor (pbr_metallic_roughness src)
          \<and> value (maps mat MATERIAL_MAP_METALNESS) = metallic_factor (pbr_metallic_roughness src)"
    if "metallic_roughness_texture (pbr_metallic_roughness src) \<noteq> None"
  proof -
    from that obtain t where "metallic_roughness_texture (pbr_metallic_roughness src) = Some t"
      by blast
    from load_material_factors_written[OF assms(1) this assms(2)] show ?thesis .
  qed
  have gated: "value (maps mat MATERIAL_MAP_ROUGHNESS)
              = value (maps (LoadMaterialDefault rl) MATERIAL_MAP_ROUGHNESS)
          \<and> value (maps mat MATERIAL_MAP_METALNESS)
              = value (maps (LoadMaterialDefault rl) MATERIAL_MAP_METALNESS)
          \<and> load_material rl lt
                (src\<lparr> pbr_metallic_roughness :=
                   (pbr_metallic_roughness src)\<lparr> metallic_factor := m, roughness_factor := r \<rparr> \<rparr>)
              = Inr mat"
    if n: "metallic_roughness_texture (pbr_metallic_roughness src) = None"
    using load_material_factors_default[OF n assms(2)] load_material_factors_not_read[OF n, where m = m and r = r and rl = rl and lt = lt]
      assms(2) by simp
  show ?thesis
    using albedo written gated by blast
qed

lemma ex_load_material_no_texture:
  "load_material ex_raylib lt (ex_cgltf_material None x y)
     = Inr (ex_material \<lparr> color_r = 255, color_g = 127, color_b = 0, color_a = 255 \<rparr>)"
  by (simp add: load_material_def ex_cgltf_material_def ex_pbr_def ex_raylib_sel Let_def
      factor_to_uchar_examples ex_material_def ex_map_def MATERIAL_MAP_DIFFUSE_def)

lemma ex_load_material_texture:
  "load_material ex_raylib (\<lambda>t. None) (ex_cgltf_material (Some 0) (1 / 4) (3 / 4))
     = Inr \<lparr> maps = (\<lambda>k. ex_map BLANK)
         (MATERIAL_MAP_ALBEDO := ex_map \<lparr> color_r = 255, color_g = 127, color_b = 0, color_a = 255 \<rparr>,
          MATERIAL_MAP_ROUGHNESS := \<lparr> texture = 0, color = BLANK, value = 3 / 4 \<rparr>,
          MATERIAL_MAP_METALNESS := \<lparr> texture = 0, color = BLANK, value = 1 / 4 \<rparr>) \<rparr>"
  using map_index_distinct
  by (simp add: load_material_def ex_cgltf_material_def ex_pbr_def ex_raylib_sel Let_def
      factor_to_uchar_examples ex_material_def ex_map_def MATERIAL_MAP_DIFFUSE_def set_texture_def)

theorem metallic_roughness_factors_gated_witness:
  "load_material ex_raylib (\<lambda>t. None) (ex_cgltf_material None (1 / 4) (3 / 4))
     = Inr (ex_material \<lparr> color_r = 255, color_g = 127, color_b = 0, color_a = 255 \<rparr>)
 \<and> value (maps (ex_material \<lparr> color_r = 255, color_g = 127, color_b = 0, color_a = 255 \<rparr>)
       MATERIAL_MAP_ROUGHNESS) = value (maps (LoadMaterialDefault ex_raylib) MATERIAL_MAP_ROUGHNESS)
 \<and> value (maps (LoadMaterialDefault ex_raylib) MATERIAL_MAP_ROUGHNESS) = 0
 \<and> int (unat (127 :: 8 word)) = truncate_rat (fl32 (1 / 2 * 255))
 \<and> (\<exists>mat. load_material ex_raylib (\<lambda>t. None) (ex_cgltf_material (Some 0) (1 / 4) (3 / 4)) = Inr mat
       \<and> value (maps mat MATERIAL_MAP_ROUGHNESS) = 3 / 4
       \<and> value (maps mat MATERIAL_MAP_METALNESS) = 1 / 4)"
proof -
  have h: "has_pbr_metallic_roughness (ex_cgltf_material t x y)" for t x y
    by (simp add: ex_cgltf_material_def)
  note a = metallic_roughness_factors_gated[OF h
      ex_load_material_no_texture[of "\<lambda>t. None" "1 / 4" "3 / 4"]]
  note b = metallic_roughness_factors_gated[OF h ex_load_material_texture]
  have d: "value (maps (LoadMaterialDefault ex_raylib) MATERIAL_MAP_ROUGHNESS) = 0"
    by (simp add: ex_raylib_sel ex_material_def ex_map_def MATERIAL_MAP_DIFFUSE_def
        MATERIAL_MAP_ALBEDO_def MATERIAL_MAP_ROUGHNESS_def)
  from a have g: "int (unat (127 :: 8 word)) = truncate_rat (fl32 (1 / 2 * 255))"
    by (simp add: ex_material_def ex_map_def MATERIAL_MAP_DIFFUSE_def ex_cgltf_material_def ex_pbr_def)
  from a have v: "value (maps (ex_material \<lparr> color_r = 255, color_g = 127, color_b = 0, color_a = 255 \<rparr>)
       MATERIAL_MAP_ROUGHNESS) = value (maps (LoadMaterialDefault ex_raylib) MATERIAL_MAP_ROUGHNESS)"
    by (simp add: ex_cgltf_material_def ex_pbr_def)
  from b have e: "\<exists>mat. load_material ex_raylib (\<lambda>t. None) (ex_cgltf_material (Some 0) (1 / 4) (3 / 4)) = Inr mat
       \<and> value (maps mat MATERIAL_MAP_ROUGHNESS) = 3 / 4
       \<and> value (maps mat MATERIAL_MAP_METALNESS) = 1 / 4"
    using ex_load_material_texture by (simp add: ex_cgltf_material_def ex_pbr_def)
  show ?thesis
    by (intro conjI ex_load_material_no_texture[of "\<lambda>t. None" "1 / 4" "3 / 4"] v d g e)
qed

lemma ex_read_triangle:
  "(LOAD_ATTRIBUTE (ex_accessor cgltf_component_type_r_16u 3 2 [0, 0, 1, 0, 2, 0]) 1 2 :: error + 16 word list)
     = Inr [0, 1, 2]"
  by (simp add: LOAD_ATTRIBUTE_def ex_accessor_def read_le_def upt_rec)

lemma ex_load_triangle:
  "load_primitive (Suc 0) ex_triangle
     \<lparr> ld_meshes = zero_Mesh # ms, ld_meshMaterial = 0 # mm, meshIndex = 0, ld_log = [] \<rparr>
   = Inr \<lparr> ld_meshes = ex_triangle_mesh # ms, ld_meshMaterial = 1 # mm, meshIndex = Suc 0, ld_log = [] \<rparr>"
  by (simp add: load_primitive_def ex_triangle_def ex_primitive_def array_get_def load_indices_def
      ex_read_triangle[unfolded One_nat_def] ex_triangle_mesh_def zero_Mesh_def upt_rec
      ex_accessor_def[THEN arg_cong, of component_type] ex_accessor_def[THEN arg_cong, of accessor_count])

lemma ex_load_lines: "load_primitive n ex_lines s = Inr s"
  by (simp add: load_primitive_def ex_lines_def ex_primitive_def)

lemma ex_load_mixed:
  "LoadGLTFModelFile ex_raylib lt ns (Parsed (ex_data [ex_lines, ex_triangle] []))
     = Inr (ex_loaded 2 [ex_triangle_mesh, zero_Mesh] [1, 0] [], [])"
  by (simp add: LoadGLTFModelFile_def ex_data_def ex_load_material_no_texture load_mesh_def
      ex_load_lines ex_load_triangle ex_loaded_def zero_GLTFModel_def ex_raylib_sel
      ex_raylib_def[THEN arg_cong, of zero_Matrix] Let_def upt_rec numeral_2_eq_2)

lemma ex_load_only_lines:
  "LoadGLTFModelFile ex_raylib lt ns (Parsed (ex_data [ex_lines, ex_lines] []))
     = Inr (ex_loaded 2 [zero_Mesh, zero_Mesh] [0, 0] [], [])"
  by (simp add: LoadGLTFModelFile_def ex_data_def ex_load_material_no_texture load_mesh_def
      ex_load_lines ex_loaded_def zero_GLTFModel_def ex_raylib_sel
      ex_raylib_def[THEN arg_cong, of zero_Matrix] Let_def upt_rec numeral_2_eq_2)

text \<open>
  Claim C2, on the code: a file whose only source mesh has a line primitive and a triangle
  primitive. The line primitive is skipped without error and the triangle primitive becomes
  mesh 0, but \<open>meshCount\<close> is 2, the number of all primitives, where the file has one
  triangle primitive; slot 1 stays a zeroed mesh.
\<close>

theorem meshCount_counts_skipped_primitives:
  "LoadGLTFModelFile ex_raylib (\<lambda>t. None) (- 1) (Parsed (ex_data [ex_lines, ex_triangle] []))
     = Inr (ex_loaded 2 [ex_triangle_mesh, zero_Mesh] [1, 0] [], [])
 \<and> meshCount (ex_loaded 2 [ex_triangle_mesh, zero_Mesh] [1, 0] []) = 2
 \<and> length (filter (\<lambda>p. primitive_type p = cgltf_primitive_type_triangles)
       (concat (map primitives (data_meshes (ex_data [ex_lines, ex_triangle] []))))) = 1"
proof (intro conjI)
  show "LoadGLTFModelFile ex_raylib (\<lambda>t. None) (- 1) (Parsed (ex_data [ex_lines, ex_triangle] []))
     = Inr (ex_loaded 2 [ex_triangle_mesh, zero_Mesh] [1, 0] [], [])"
    by (rule ex_load_mixed)
qed (simp_all add: ex_loaded_def ex_data_def ex_lines_def ex_triangle_def ex_primitive_def)

text \<open>
  Claim C7, on the code: a file whose only source mesh has two line primitives, so no valid
  primitive. \<^verbatim>\<open>LoadGLTFModel\<close> returns \<open>meshCount = 2\<close> with two zeroed meshes and an empty
  log: no placeholder mesh and no warning, because \<open>meshCount\<close> counts the skipped
  primitives and is not 0.
\<close>

theorem no_fallback_for_skipped_primitives:
  "LoadGLTFModel ex_raylib (\<lambda>t. None) (- 1) (Parsed (ex_data [ex_lines, ex_lines] []))
     = Inr ((ex_loaded 2 [zero_Mesh, zero_Mesh] [0, 0] [])\<lparr> model_transform := M_Identity \<rparr>, [])
 \<and> filter (\<lambda>p. primitive_type p = cgltf_primitive_type_triangles)
       (concat (map primitives (data_meshes (ex_data [ex_lines, ex_lines] [])))) = []"
proof (intro conjI)
  have "meshCount (ex_loaded 2 ms mm ns) \<noteq> 0" "materialCount (ex_loaded 2 ms mm ns) \<noteq> 0" for ms mm ns
    by (simp_all add: ex_loaded_def)
  then show "LoadGLTFModel ex_raylib (\<lambda>t. None) (- 1) (Parsed (ex_data [ex_lines, ex_lines] []))
     = Inr ((ex_loaded 2 [zero_Mesh, zero_Mesh] [0, 0] [])\<lparr> model_transform := M_Identity \<rparr>, [])"
    by (simp add: LoadGLTFModel_def ex_load_only_lines ex_raylib_sel Let_def)
qed (simp add: ex_data_def ex_lines_def ex_primitive_def)

lemma load_node_transform:
  assumes "load_node rl starts ends src = Inr n"
  shows "translation (transform n)
           = (if has_translation src then node_translation src else \<lparr> v3_x = 0, v3_y = 0, v3_z = 0 \<rparr>)"
    and "rotation (transform n)
           = (if has_rotation src then node_rotation src else \<lparr> q_x = 0, q_y = 0, q_z = 0, q_w = 0 \<rparr>)"
    and "scale (transform n)
           = (if has_scale src then node_scale src else \<lparr> v3_x = 1, v3_y = 1, v3_z = 1 \<rparr>)"
  using assms
  by (auto simp: load_node_def Let_def zero_Transform_def split: sum.splits option.splits)

lemma ex_load_node:
  "load_node ex_raylib starts ends ex_cgltf_node
     = Inr \<lparr> childrenCount = 0, children = [], meshStart = - 1, meshEnd = - 1,
             transform = \<lparr> translation = \<lparr> v3_x = 1, v3_y = 2, v3_z = 3 \<rparr>,
                           rotation = \<lparr> q_x = 0, q_y = 0, q_z = 0, q_w = 0 \<rparr>,
                           scale = \<lparr> v3_x = 1, v3_y = 1, v3_z = 1 \<rparr> \<rparr>,
             transformMatrix = M_Multiply (M_Multiply M_Identity M_Identity) (M_Translate 1 2 3) \<rparr>"
  by (simp add: load_node_def ex_cgltf_node_def ex_raylib_sel zero_Transform_def Let_def)

text \<open>
  Claim C9, on the code: for every node without a rotation in the source, the stored
  rotation of the imported node is the quaternion \<open>(0, 0, 0, 0)\<close> of the zero-initialised
  node array, not the identity rotation \<open>(0, 0, 0, 1)\<close>.
\<close>

theorem absent_rotation_stored_as_zero_quaternion:
  "\<not> has_rotation src \<and> load_node rl starts ends src = Inr n \<longrightarrow>
     rotation (transform n) = \<lparr> q_x = 0, q_y = 0, q_z = 0, q_w = 0 \<rparr>
   \<and> rotation (transform n) \<noteq> \<lparr> q_x = 0, q_y = 0, q_z = 0, q_w = 1 \<rparr>"
  using load_node_transform(2)[of rl starts ends src n] by auto

theorem absent_rotation_stored_as_zero_quaternion_witness:
  "load_node ex_raylib [] [] ex_cgltf_node
     = Inr \<lparr> childrenCount = 0, children = [], meshStart = - 1, meshEnd = - 1,
             transform = \<lparr> translation = \<lparr> v3_x = 1, v3_y = 2, v3_z = 3 \<rparr>,
                           rotation = \<lparr> q_x = 0, q_y = 0, q_z = 0, q_w = 0 \<rparr>,
                           scale = \<lparr> v3_x = 1, v3_y = 1, v3_z = 1 \<rparr> \<rparr>,
             transformMatrix = M_Multiply (M_Multiply M_Identity M_Identity) (M_Translate 1 2 3) \<rparr>
 \<and> \<lparr> q_x = 0, q_y = 0, q_z = 0, q_w = 0 \<rparr> \<noteq> \<lparr> q_x = 0, q_y = 0, q_z = 0, q_w = (1 :: rat) \<rparr>"
proof -
  have h: "\<not> has_rotation ex_cgltf_node"
    by (simp add: ex_cgltf_node_def)
  from absent_rotation_stored_as_zero_quaternion[rule_format, OF conjI[OF h ex_load_node[of "[]" "[]"]]]
  have "\<lparr> q_x = 0, q_y = 0, q_z = 0, q_w = 0 \<rparr> \<noteq> \<lparr> q_x = 0, q_y = 0, q_z = 0, q_w = (1 :: rat) \<rparr>"
    by simp
  then show ?thesis
    using ex_load_node[of "[]" "[]"] by (rule conjI[rotated])
qed

lemma find_snoc:
  "find P (xs @ [y]) = (case find P xs of None \<Rightarrow> (if P y then Some y else None) | Some x \<Rightarrow> Some x)"
  by (induction xs) auto

lemma find_material:
  "find (\<lambda>m. pm = Some m) [0 ..< n]
     = (case pm of None \<Rightarrow> None | Some m \<Rightarrow> if m < n then Some m else None)"
proof (induction n)
  case 0
  then show ?case by (simp split: option.splits)
next
  case (Suc n)
  then show ?case by (auto simp: find_snoc split: option.splits)
qed

lemma load_primitive_skip:
  "\<not> is_triangles p \<Longrightarrow> load_primitive n p s = Inr s"
  by (simp add: load_primitive_def is_triangles_def)

lemma load_primitive_triangle:
  assumes "is_triangles p" and "load_primitive n p s = Inr s'"
  shows "meshIndex s < length (ld_meshMaterial s)"
    and "meshIndex s' = meshIndex s + 1"
    and "ld_meshMaterial s'
           = (case primitive_material p of None \<Rightarrow> ld_meshMaterial s
              | Some m \<Rightarrow> if m < n then (ld_meshMaterial s)[meshIndex s := int m + 1]
                          else ld_meshMaterial s)"
  using assms
  by (auto simp: load_primitive_def is_triangles_def find_material
      split: sum.splits if_splits option.splits)

lemma load_primitive_meshMaterial:
  assumes "is_triangles p" and "load_primitive n p s = Inr s'"
    and "ld_meshMaterial s = xs @ replicate k 0" and "meshIndex s = length xs"
  shows "0 < k"
    and "ld_meshMaterial s' = (xs @ [material_index n p]) @ replicate (k - 1) 0"
    and "meshIndex s' = length (xs @ [material_index n p])"
proof -
  note t = load_primitive_triangle[OF assms(1,2)]
  from t(1) assms(3,4) show k: "0 < k" by simp
  then obtain k' where k': "k = Suc k'" by (cases k) auto
  show "meshIndex s' = length (xs @ [material_index n p])"
    using t(2) assms(4) by simp
  show "ld_meshMaterial s' = (xs @ [material_index n p]) @ replicate (k - 1) 0"
    unfolding t(3) assms(3,4) k'
    by (simp add: material_index_def list_update_append split: option.splits)
qed

lemma load_primitives_meshMaterial:
  assumes "iterate (load_primitive n) ps s = Inr s'"
    and "ld_meshMaterial s = xs @ replicate k 0" and "meshIndex s = length xs"
  shows "length (filter is_triangles ps) \<le> k
       \<and> ld_meshMaterial s' = (xs @ map (material_index n) (filter is_triangles ps))
                                @ replicate (k - length (filter is_triangles ps)) 0
       \<and> meshIndex s' = length (xs @ map (material_index n) (filter is_triangles ps))"
  using assms
proof (induction ps arbitrary: s xs k)
  case Nil
  then show ?case by simp
next
  case (Cons p ps)
  from Cons.prems(1) obtain u where u: "load_primitive n p s = Inr u"
    and rest: "iterate (load_primitive n) ps u = Inr s'"
    by (auto split: sum.splits)
  show ?case
  proof (cases "is_triangles p")
    case False
    with u have "u = s" by (simp add: load_primitive_skip)
    with Cons.IH[OF rest[unfolded this] Cons.prems(2,3)] False show ?thesis by simp
  next
    case True
    note m = load_primitive_meshMaterial[OF True u Cons.prems(2,3)]
    from Cons.IH[OF rest m(2,3)] m(1) True show ?thesis by auto
  qed
qed

lemma load_meshes_meshMaterial:
  assumes "iterate (load_mesh data) is acc = Inr acc'"
    and "ld_meshMaterial (fst acc) = xs @ replicate k 0" and "meshIndex (fst acc) = length xs"
  shows "length (filter is_triangles (concat (map (\<lambda>i. primitives (data_meshes data ! i)) is))) \<le> k
       \<and> ld_meshMaterial (fst acc')
           = (xs @ map (material_index (length (data_materials data)))
                     (filter is_triangles (concat (map (\<lambda>i. primitives (data_meshes data ! i)) is))))
             @ replicate (k - length (filter is_triangles
                          (concat (map (\<lambda>i. primitives (data_meshes data ! i)) is)))) 0"
  using assms
proof (induction "is" arbitrary: acc xs k)
  case Nil
  then show ?case by simp
next
  case (Cons i "is")
  let ?n = "length (data_materials data)"
  let ?ps = "primitives (data_meshes data ! i)"
  let ?t = "filter is_triangles ?ps"
  from Cons.prems(1) obtain u where u: "load_mesh data i acc = Inr u"
    and rest: "iterate (load_mesh data) is u = Inr acc'"
    by (auto split: sum.splits)
  from u obtain s' where s': "iterate (load_primitive ?n) ?ps (fst acc) = Inr s'" and fu: "fst u = s'"
    by (auto simp: load_mesh_def Let_def split: sum.splits)
  note p = load_primitives_meshMaterial[OF s' Cons.prems(2,3)]
  from p have a: "ld_meshMaterial (fst u) = (xs @ map (material_index ?n) ?t) @ replicate (k - length ?t) 0"
    and b: "meshIndex (fst u) = length (xs @ map (material_index ?n) ?t)"
    and c: "length ?t \<le> k"
    unfolding fu by blast+
  from Cons.IH[OF rest a b] c show ?case by (auto simp: diff_diff_eq)
qed

lemma concat_primitives_nth:
  "concat (map (\<lambda>i. primitives (ms ! i)) [0 ..< length ms]) = concat (map primitives ms)"
proof -
  have "map (\<lambda>i. primitives (ms ! i)) [0 ..< length ms] = map primitives ms"
    by (rule nth_equalityI) auto
  then show ?thesis by simp
qed

lemma LoadGLTFModelFile_Parsed:
  assumes "LoadGLTFModelFile rl lt ns (Parsed data) = Inr (model, lg)"
  shows "meshCount model = primitivesCount data"
    and "materialCount model = int (length (data_materials data)) + 1"
    and "length (triangle_primitives data) \<le> nat (primitivesCount data)"
    and "meshMaterial model
           = map (material_index (length (data_materials data))) (triangle_primitives data)
             @ replicate (nat (primitivesCount data) - length (triangle_primitives data)) 0"
proof -
  let ?P = "\<Sum>m \<leftarrow> data_meshes data. int (length (primitives m))"
  let ?s0 = "\<lparr> ld_meshes = replicate (nat ?P) zero_Mesh,
                 ld_meshMaterial = replicate (nat ?P) 0, meshIndex = 0,
                 ld_log = (if file_type data = cgltf_file_type_glb \<or> file_type data = cgltf_file_type_gltf
                     then [] else [''MODEL: [%s] Model format not recognized'']) \<rparr>"
  let ?M = "length (data_meshes data)"
  from assms obtain mats loaded nodes' where
    l: "iterate (load_mesh data) [0 ..< ?M] (?s0, replicate ?M 0, replicate ?M 0) = Inr loaded"
    and mc: "meshCount model = ?P"
    and mt: "materialCount model = int (length (data_materials data)) + 1"
    and mm: "meshMaterial model = ld_meshMaterial (fst loaded)"
    by (auto simp: LoadGLTFModelFile_def Let_def zero_GLTFModel_def split: sum.splits if_splits)
  show "meshCount model = primitivesCount data"
    using mc by (simp add: primitivesCount_def)
  show "materialCount model = int (length (data_materials data)) + 1"
    by (rule mt)
  have "ld_meshMaterial (fst (?s0, replicate ?M (0::int), replicate ?M (0::int))) = [] @ replicate (nat ?P) 0"
    and "meshIndex (fst (?s0, replicate ?M (0::int), replicate ?M (0::int))) = length ([] :: int list)"
    by simp_all
  from load_meshes_meshMaterial[OF l this]
  show "length (triangle_primitives data) \<le> nat (primitivesCount data)"
    and "meshMaterial model
           = map (material_index (length (data_materials data))) (triangle_primitives data)
             @ replicate (nat (primitivesCount data) - length (triangle_primitives data)) 0"
    unfolding mm by (simp_all add: concat_primitives_nth triangle_primitives_def primitivesCount_def)
qed

lemma material_index_range: "0 \<le> material_index n p \<and> material_index n p < int n + 1"
  by (simp add: material_index_def split: option.splits)

lemma LoadGLTFModel_loaded:
  assumes "LoadGLTFModel rl lt ns (Parsed data) = Inr (model, lg)"
    and "0 < primitivesCount data"
  shows "\<exists>model0. LoadGLTFModelFile rl lt ns (Parsed data) = Inr (model0, lg)
           \<and> model = model0\<lparr> model_transform := MatrixIdentity rl \<rparr>"
proof -
  from assms(1) obtain model0 lg0 where
    f: "LoadGLTFModelFile rl lt ns (Parsed data) = Inr (model0, lg0)"
    by (auto simp: LoadGLTFModel_def split: sum.splits)
  note p = LoadGLTFModelFile_Parsed[OF f]
  from p(1) assms(2) have c: "meshCount model0 \<noteq> 0" by simp
  from p(2) have m: "materialCount model0 \<noteq> 0" by simp
  from assms(1) f c m have "model = model0\<lparr> model_transform := MatrixIdentity rl \<rparr>" and "lg = lg0"
    by (simp_all add: LoadGLTFModel_def Let_def)
  with f show ?thesis by blast
qed

text \<open>
  For a model loaded from a file with at least one primitive, \<open>meshMaterial\<close> has one entry
  per mesh and every entry is at least 0 and less than \<open>materialCount\<close>. The entries are,
  in order, those of the triangle primitives, 0 for a primitive without material reference
  or with an unmatched one and \<open>m + 1\<close> for source material \<open>m\<close>, followed by 0 for the
  remaining slots.
\<close>

lemma meshMaterial_in_range:
  assumes "LoadGLTFModel rl lt ns (Parsed data) = Inr (model, lg)"
    and "0 < primitivesCount data"
  shows "int (length (meshMaterial model)) = meshCount model
       \<and> (\<forall>i < length (meshMaterial model).
             0 \<le> meshMaterial model ! i \<and> meshMaterial model ! i < materialCount model)
       \<and> meshMaterial model
           = map (material_index (length (data_materials data))) (triangle_primitives data)
             @ replicate (nat (meshCount model) - length (triangle_primitives data)) 0
       \<and> materialCount model = int (length (data_materials data)) + 1"
proof -
  from LoadGLTFModel_loaded[OF assms(1,2)] obtain model0 where
    f: "LoadGLTFModelFile rl lt ns (Parsed data) = Inr (model0, lg)"
    and m: "model = model0\<lparr> model_transform := MatrixIdentity rl \<rparr>"
    by blast
  note p = LoadGLTFModelFile_Parsed[OF f]
  let ?n = "length (data_materials data)"
  have mm: "meshMaterial model
           = map (material_index ?n) (triangle_primitives data)
             @ replicate (nat (meshCount model) - length (triangle_primitives data)) 0"
    using p(1,4) m by simp
  have len: "int (length (meshMaterial model)) = meshCount model"
    using p(1,3) assms(2) m by (simp add: p(4))
  have mc: "materialCount model = int ?n + 1"
    using p(2) m by simp
  have "\<forall>x \<in> set (meshMaterial model). 0 \<le> x \<and> x < int ?n + 1"
    unfolding mm using material_index_range[of ?n] by auto
  then have rng: "\<forall>i < length (meshMaterial model).
             0 \<le> meshMaterial model ! i \<and> meshMaterial model ! i < materialCount model"
    unfolding mc by (meson nth_mem)
  show ?thesis
    using len rng mm mc by blast
qed

lemma ex_LoadGLTFModel_mixed:
  "LoadGLTFModel ex_raylib lt ns (Parsed (ex_data [ex_lines, ex_triangle] []))
     = Inr ((ex_loaded 2 [ex_triangle_mesh, zero_Mesh] [1, 0] [])\<lparr> model_transform := M_Identity \<rparr>, [])"
proof -
  have "meshCount (ex_loaded 2 ms mm nds) \<noteq> 0" "materialCount (ex_loaded 2 ms mm nds) \<noteq> 0" for ms mm nds
    by (simp_all add: ex_loaded_def)
  then show ?thesis
    by (simp add: LoadGLTFModel_def ex_load_mixed ex_raylib_sel Let_def)
qed

lemma ex_meshMaterial_in_range:
  "LoadGLTFModel ex_raylib (\<lambda>t. None) (- 1) (Parsed (ex_data [ex_lines, ex_triangle] []))
     = Inr ((ex_loaded 2 [ex_triangle_mesh, zero_Mesh] [1, 0] [])\<lparr> model_transform := M_Identity \<rparr>, [])
 \<and> [1, 0] = map (material_index 1) (triangle_primitives (ex_data [ex_lines, ex_triangle] []))
              @ replicate (2 - length (triangle_primitives (ex_data [ex_lines, ex_triangle] []))) 0
 \<and> triangle_primitives (ex_data [ex_lines, ex_triangle] []) = [ex_triangle]
 \<and> materialCount ((ex_loaded 2 [ex_triangle_mesh, zero_Mesh] [1, 0] [])\<lparr> model_transform := M_Identity \<rparr>) = 2"
proof -
  have c: "0 < primitivesCount (ex_data [ex_lines, ex_triangle] [])"
    by (simp add: primitivesCount_def ex_data_def)
  have t: "triangle_primitives (ex_data [ex_lines, ex_triangle] []) = [ex_triangle]"
    by (simp add: triangle_primitives_def ex_data_def is_triangles_def ex_lines_def ex_triangle_def
        ex_primitive_def)
  note w = meshMaterial_in_range[OF ex_LoadGLTFModel_mixed[of "\<lambda>t. None" "- 1"] c]
  from w have a: "[1, 0] = map (material_index 1) (triangle_primitives (ex_data [ex_lines, ex_triangle] []))
              @ replicate (2 - length (triangle_primitives (ex_data [ex_lines, ex_triangle] []))) 0"
    by (simp add: ex_loaded_def ex_data_def[THEN arg_cong, of data_materials])
  from w have b: "materialCount ((ex_loaded 2 [ex_triangle_mesh, zero_Mesh] [1, 0] [])\<lparr> model_transform := M_Identity \<rparr>) = 2"
    by (simp add: ex_data_def[THEN arg_cong, of data_materials])
  show ?thesis
    by (intro conjI ex_LoadGLTFModel_mixed a t b)
qed

lemma LoadGLTFModel_fallback:
  assumes "LoadGLTFModelFile rl lt ns input = Inr (model0, lg0)" and "meshCount model0 = 0"
  shows "\<exists>model lg. LoadGLTFModel rl lt ns input = Inr (model, lg)
           \<and> meshCount model = 1
           \<and> meshes model = [if SUPPORT_MESH_GENERATION rl then GenMeshCube rl 1 1 1 else zero_Mesh]
           \<and> (if SUPPORT_MESH_GENERATION rl
               then ''MESH: [%s] Failed to load mesh data, default to cube mesh''
               else ''MESH: [%s] Failed to load mesh data'') \<in> set lg"
  using assms by (simp add: LoadGLTFModel_def Let_def)

lemma LoadGLTFModel_no_file:
  "input = FileUnreadable \<or> input = ParseFailed \<Longrightarrow>
   \<exists>lg. LoadGLTFModel rl lt ns input
     = Inr (\<lparr> model_transform = MatrixIdentity rl, meshCount = 1, materialCount = 1,
              meshes = [if SUPPORT_MESH_GENERATION rl then GenMeshCube rl 1 1 1 else zero_Mesh],
              materials = [LoadMaterialDefault rl], meshMaterial = [0], nodeCount = 0, nodes = [],
              sceneCount = 0, scenes = [], scene = 0 \<rparr>, lg)"
  by (auto simp: LoadGLTFModel_def LoadGLTFModelFile_def zero_GLTFModel_def Let_def)

text \<open>
  The range table of the mesh loop: the triangle primitives of source mesh \<open>i\<close> take the
  slots from \<open>mesh_id_starts[i]\<close> up to \<open>mesh_id_ends[i]\<close>, one after the other, after
  those of the meshes before it.
\<close>

lemma load_primitives_meshIndex:
  "iterate (load_primitive n) ps s = Inr s'
   \<Longrightarrow> meshIndex s' = meshIndex s + length (filter is_triangles ps)"
proof (induction ps arbitrary: s)
  case Nil
  then show ?case by simp
next
  case (Cons p ps)
  from Cons.prems obtain u where u: "load_primitive n p s = Inr u"
    and rest: "iterate (load_primitive n) ps u = Inr s'"
    by (auto split: sum.splits)
  show ?case
  proof (cases "is_triangles p")
    case True
    from load_primitive_triangle(2)[OF True u] Cons.IH[OF rest] True show ?thesis by simp
  next
    case False
    with u have "u = s" by (simp add: load_primitive_skip)
    with Cons.IH[OF rest] False show ?thesis by simp
  qed
qed

lemma triangles_before_Suc:
  "i < length (data_meshes data) \<Longrightarrow>
   triangles_before data (Suc i)
     = triangles_before data i + int (length (filter is_triangles (primitives (data_meshes data ! i))))"
  by (simp add: triangles_before_def take_Suc_conv_app_nth)

lemma load_meshes_ranges_prefix:
  assumes "n \<le> length (data_meshes data)"
    and "iterate (load_mesh data) [0 ..< n] (s0, starts0, ends0) = Inr (s, starts, ends)"
    and "meshIndex s0 = 0"
    and "length starts0 = length (data_meshes data)" and "length ends0 = length (data_meshes data)"
  shows "int (meshIndex s) = triangles_before data n
       \<and> length starts = length (data_meshes data) \<and> length ends = length (data_meshes data)
       \<and> (\<forall>i < n. starts ! i = triangles_before data i \<and> ends ! i = triangles_before data (Suc i))"
  using assms(1,2)
proof (induction n arbitrary: s starts ends)
  case 0
  then show ?case using assms(3-5) by (simp add: triangles_before_def)
next
  case (Suc n)
  from Suc.prems(2) obtain u where
    u: "iterate (load_mesh data) [0 ..< n] (s0, starts0, ends0) = Inr u"
    and last: "load_mesh data n u = Inr (s, starts, ends)"
    by (auto simp: iterate_append split: sum.splits)
  obtain s1 starts1 ends1 where u1: "u = (s1, starts1, ends1)" by (cases u)
  from Suc.prems(1) have n: "n \<le> length (data_meshes data)" and n': "n < length (data_meshes data)"
    by simp_all
  note ih = Suc.IH[OF n u[unfolded u1]]
  from last[unfolded u1] obtain
    it: "iterate (load_primitive (length (data_materials data)))
           (primitives (data_meshes data ! n)) s1 = Inr s"
    and st: "starts = starts1[n := int (meshIndex s1)]"
    and en: "ends = ends1[n := int (meshIndex s)]"
    by (auto simp: load_mesh_def Let_def split: sum.splits)
  have mi: "int (meshIndex s) = triangles_before data (Suc n)"
    using load_primitives_meshIndex[OF it] ih triangles_before_Suc[OF n'] by simp
  have "starts ! i = triangles_before data i \<and> ends ! i = triangles_before data (Suc i)"
    if "i < Suc n" for i
  proof (cases "i = n")
    case True
    then show ?thesis using ih n' mi by (simp add: st en)
  next
    case False
    with that have "i < n" by simp
    with ih False show ?thesis by (simp add: st en)
  qed
  with mi ih show ?case by (simp add: st en)
qed

lemma load_meshes_ranges:
  assumes "iterate (load_mesh data) [0 ..< length (data_meshes data)]
             (s0, replicate (length (data_meshes data)) 0, replicate (length (data_meshes data)) 0)
           = Inr (s, starts, ends)"
    and "meshIndex s0 = 0" and "i < length (data_meshes data)"
  shows "starts ! i = triangles_before data i"
    and "ends ! i = starts ! i + int (length (filter is_triangles (primitives (data_meshes data ! i))))"
    and "length starts = length (data_meshes data)" and "length ends = length (data_meshes data)"
proof -
  note r = load_meshes_ranges_prefix[OF order_refl assms(1,2)]
  from r assms(3) show "starts ! i = triangles_before data i" by simp
  from r assms(3) triangles_before_Suc[OF assms(3)]
  show "ends ! i = starts ! i + int (length (filter is_triangles (primitives (data_meshes data ! i))))"
    by simp
  from r show "length starts = length (data_meshes data)" and "length ends = length (data_meshes data)"
    by simp_all
qed

text \<open>
  A file without any primitive: the placeholder mesh is added, but \<open>meshMaterial\<close> keeps
  the length 0 it was allocated with, since the material fallback is not taken.
\<close>

lemma LoadGLTFModel_no_primitives:
  assumes "LoadGLTFModel rl lt ns (Parsed data) = Inr (model, lg)"
    and "primitivesCount data = 0"
  shows "meshCount model = 1" and "meshMaterial model = []"
    and "materialCount model = int (length (data_materials data)) + 1"
proof -
  from assms(1) obtain model0 lg0 where
    f: "LoadGLTFModelFile rl lt ns (Parsed data) = Inr (model0, lg0)"
    by (auto simp: LoadGLTFModel_def split: sum.splits)
  note p = LoadGLTFModelFile_Parsed[OF f]
  from p(3) assms(2) have t: "triangle_primitives data = []" by simp
  from p(1,2,4) assms(2) t have z: "meshCount model0 = 0" "materialCount model0 \<noteq> 0"
    "meshMaterial model0 = []" by simp_all
  from assms(1) f z have m: "model = model0\<lparr> model_transform := MatrixIdentity rl, meshCount := 1,
      meshes := [if SUPPORT_MESH_GENERATION rl then GenMeshCube rl 1 1 1 else zero_Mesh] \<rparr>"
    by (simp add: LoadGLTFModel_def Let_def)
  show "meshCount model = 1" and "meshMaterial model = []"
    and "materialCount model = int (length (data_materials data)) + 1"
    using z p(2) by (simp_all add: m)
qed

lemma ex_load_no_mesh:
  "LoadGLTFModel ex_raylib lt ns (Parsed ex_no_mesh_data)
     = Inr (ex_placeholder_model, [''MESH: [%s] Failed to load mesh data, default to cube mesh''])"
  by (simp add: LoadGLTFModel_def LoadGLTFModelFile_def ex_no_mesh_data_def
      ex_load_material_no_texture zero_GLTFModel_def ex_raylib_sel ex_placeholder_model_def
      ex_raylib_def[THEN arg_cong, of zero_Matrix] ex_raylib_def[THEN arg_cong, of GenMeshCube]
      Let_def)

lemma ex_draw_placeholder:
  "DrawGLTFModel fuel ex_raylib ex_placeholder_model ex_position 1 WHITE
     \<lparr> heap_materials = materials ex_placeholder_model, calls = [] \<rparr> = Inl OutOfBounds"
  by (simp add: DrawGLTFModel_def DrawGLTFModelEx_def has_scene_to_draw_def Let_def
      ex_placeholder_model_def draw_tinted_mesh_def array_get_def)

text \<open>
  Claim C3, on the code. A model can be loaded with one mesh and two materials and no entry
  in \<open>meshMaterial\<close>: for a file with a material and no mesh the loader installs the
  placeholder cube, so \<open>meshCount\<close> is 1 and \<open>materialCount\<close> is 2, but \<open>meshMaterial\<close>
  keeps the length 0 it was allocated with. Mesh index 0 then has no material index, so
  \<open>0 \<le> meshMaterial[0] < materialCount\<close> does not hold of it, and drawing the model reads
  \<open>meshMaterial[0]\<close> out of bounds.
\<close>

theorem placeholder_mesh_without_material_index:
  "LoadGLTFModel ex_raylib (\<lambda>t. None) (- 1) (Parsed ex_no_mesh_data)
     = Inr (ex_placeholder_model, [''MESH: [%s] Failed to load mesh data, default to cube mesh''])
 \<and> meshCount ex_placeholder_model = 1
 \<and> materialCount ex_placeholder_model = 2
 \<and> meshMaterial ex_placeholder_model = []
 \<and> array_get (meshMaterial ex_placeholder_model) 0 = Inl OutOfBounds
 \<and> DrawGLTFModel 0 ex_raylib ex_placeholder_model ex_position 1 WHITE
       \<lparr> heap_materials = materials ex_placeholder_model, calls = [] \<rparr> = Inl OutOfBounds"
proof (intro conjI)
  show "LoadGLTFModel ex_raylib (\<lambda>t. None) (- 1) (Parsed ex_no_mesh_data)
     = Inr (ex_placeholder_model, [''MESH: [%s] Failed to load mesh data, default to cube mesh''])"
    by (rule ex_load_no_mesh)
  show "DrawGLTFModel 0 ex_raylib ex_placeholder_model ex_position 1 WHITE
       \<lparr> heap_materials = materials ex_placeholder_model, calls = [] \<rparr> = Inl OutOfBounds"
    by (rule ex_draw_placeholder)
qed (simp_all add: ex_placeholder_model_def array_get_def)

text \<open>
  Claim C5 as stated does not hold: the colour used for the draw is not always the product
  of the two fractions rescaled to 0..255. Channel 17 with tint 195 has the product
  \<open>(17 / 255) * (195 / 255) * 255 = 13\<close>, and the code draws with 12.
\<close>

theorem tint_is_not_the_exact_product:
  "tint_channel 17 195 = Inr 12
 \<and> spec_tint_channel 17 195 = 13
 \<and> rat_of_nat (unat (12 :: 8 word)) \<noteq> spec_tint_channel 17 195"
proof (intro conjI)
  show "tint_channel 17 195 = Inr 12" by (rule tint_channel_examples)
  show s: "spec_tint_channel 17 195 = 13" by (simp add: spec_tint_channel_def)
  show "rat_of_nat (unat (12 :: 8 word)) \<noteq> spec_tint_channel 17 195" by (simp add: s)
qed

end
